theory Spec2Isabelle
  imports Main
begin

section \<open>JavaScript values used by the routes\<close>

text \<open>
  A string is the list of the bytes of its UTF-8 encoding, so equality, emptiness and
  the search for an ASCII substring are those of the JavaScript string. What depends
  on the characters of a string is a primitive of the runtime and is taken from the
  platform record below: \<open>trim\<close>, \<open>toLowerCase\<close> and \<open>length\<close> (which counts
  UTF-16 code units).

  A value that may be missing (\<open>undefined\<close> or \<open>null\<close>: an unset environment variable,
  an absent field of the request body or of the settings document) is a
  \<open>string option\<close>. A falsy value of another JSON type (\<open>0\<close>, \<open>false\<close>) is
  represented as missing, every other value by its \<open>String()\<close> form.
\<close>

fun js_includes :: "string \<Rightarrow> string \<Rightarrow> bool" where
  "js_includes [] p = (p = [])"
| "js_includes (c # cs) p = (take (length p) (c # cs) = p \<or> js_includes cs p)"

text \<open>Truthiness of a possibly missing string: missing and the empty string are falsy.\<close>

fun truthy :: "string option \<Rightarrow> bool" where
  "truthy None = False"
| "truthy (Some s) = (s \<noteq> [])"

text \<open>\<open>a || b\<close> on possibly missing strings.\<close>

definition js_or :: "string option \<Rightarrow> string option \<Rightarrow> string option" where
  "js_or a b = (if truthy a then a else b)"

text \<open>\<open>String(a || d)\<close> for a string literal \<open>d\<close>.\<close>

definition or_default :: "string option \<Rightarrow> string \<Rightarrow> string" where
  "or_default a d = (case a of None \<Rightarrow> d | Some s \<Rightarrow> if s = [] then d else s)"

section \<open>The platform\<close>

text \<open>
  The primitives the routes call: of the JavaScript runtime, \<open>String.prototype.trim\<close>,
  \<open>String.prototype.toLowerCase\<close>, the \<open>length\<close> of a string and \<open>Number()\<close> on a
  string (\<open>None\<close> for a result that is not an integer; such a port never equals 465);
  of the libraries, SHA-256 with hex digest and bcrypt (the salt is not modelled).
\<close>

record platform =
  js_trim :: "string \<Rightarrow> string"
  js_toLowerCase :: "string \<Rightarrow> string"
  js_length :: "string \<Rightarrow> nat"
  js_Number :: "string \<Rightarrow> int option"
  sha256_hex :: "string \<Rightarrow> string"
  bcrypt_hash :: "string \<Rightarrow> string"
  bcrypt_compare :: "string \<Rightarrow> string \<Rightarrow> bool"

section \<open>Configuration\<close>

text \<open>
  A seed entry of the \<open>ADMIN_ACCOUNTS\<close> array. \<open>forceSync\<close> holds the truthiness of
  the entry's field.
\<close>

record seed =
  seed_email :: "string option"
  seed_password :: "string option"
  seed_name :: "string option"
  forceSync :: bool

text \<open>
  \<open>process.env\<close>. \<open>ADMIN_ACCOUNTS\<close> holds the variable after \<open>JSON.parse\<close>:
  \<open>Some\<close> of the entries when the variable parses to an array, \<open>None\<close> when it is
  unset, empty, not JSON or not an array (the cases in which \<open>parseAdminAccounts\<close>
  returns null).
\<close>

record process_env =
  JWT_SECRET_var :: "string option"
  REQUIRE_ADMIN_EMAIL_VERIFICATION_var :: "string option"
  ADMIN_ACCOUNTS :: "seed list option"
  ADMIN_EMAIL :: "string option"
  ADMIN_PASSWORD :: "string option"
  ADMIN_NAME :: "string option"
  SMTP_HOST :: "string option"
  SMTP_PORT :: "string option"
  SMTP_SECURE :: "string option"
  SMTP_USER :: "string option"
  SMTP_PASS :: "string option"
  EMAIL_USER :: "string option"
  EMAIL_PASS :: "string option"
  RESEND_API_KEY :: "string option"
  CONTACT_FROM_EMAIL :: "string option"
  NODE_ENV :: "string option"
  DISABLE_PUBLIC_ADMIN_SIGNUP :: "string option"

definition JWT_SECRET :: "process_env \<Rightarrow> string" where
  "JWT_SECRET env = or_default (JWT_SECRET_var env) ''secretkey''"

definition LOGIN_CODE_TTL_MS :: int where
  "LOGIN_CODE_TTL_MS = 10 * 60 * 1000"

definition REQUIRE_ADMIN_EMAIL_VERIFICATION :: "platform \<Rightarrow> process_env \<Rightarrow> bool" where
  "REQUIRE_ADMIN_EMAIL_VERIFICATION pf env =
     (js_toLowerCase pf (or_default (REQUIRE_ADMIN_EMAIL_VERIFICATION_var env) ''false'') = ''true'')"

definition DEFAULT_PRIMARY_ADMIN_EMAIL :: string where
  "DEFAULT_PRIMARY_ADMIN_EMAIL = ''aethonplast@gmail.com''"

definition DEFAULT_PRIMARY_ADMIN_PASSWORD :: string where
  "DEFAULT_PRIMARY_ADMIN_PASSWORD = ''aethonplast@2026''"

definition DEFAULT_PRIMARY_ADMIN_NAME :: string where
  "DEFAULT_PRIMARY_ADMIN_NAME = ''Primary Admin''"

section \<open>The admin account store\<close>

text \<open>
  Modelled from the spec: the Admin schema (\<open>models/Admin\<close>) is not among the sources.
  The record has the fields the routes read and write; hashes are strings with the
  empty string for "none", expiry timestamps are nullable, times are milliseconds.
\<close>

record admin =
  admin_id :: string
  name :: string
  email :: string
  passwordHash :: string
  isVerified :: bool
  loginVerificationCodeHash :: string
  loginVerificationExpiresAt :: "int option"
  resetPasswordTokenHash :: string
  resetPasswordExpiresAt :: "int option"
  createdAt :: int

datatype write_op = Saved string | Created string | Deleted string

text \<open>
  The collection in natural order, the log of the writes made so far, and the
  identifier the store hands to the next created document.
\<close>

record db =
  docs :: "admin list"
  writes :: "write_op list"
  new_id :: "admin list \<Rightarrow> string"

definition findOne :: "(admin \<Rightarrow> bool) \<Rightarrow> db \<Rightarrow> admin option" where
  "findOne P d = find P (docs d)"

definition findById :: "string \<Rightarrow> db \<Rightarrow> admin option" where
  "findById i d = find (\<lambda>a. admin_id a = i) (docs d)"

definition countDocuments :: "db \<Rightarrow> nat" where
  "countDocuments d = length (docs d)"

text \<open>\<open>$gt: now\<close> on a nullable date: null matches nothing.\<close>

fun date_gt :: "int option \<Rightarrow> int \<Rightarrow> bool" where
  "date_gt None now = False"
| "date_gt (Some t) now = (now < t)"

fun replace_doc :: "admin \<Rightarrow> admin list \<Rightarrow> admin list" where
  "replace_doc a [] = []"
| "replace_doc a (d # ds) =
     (if admin_id d = admin_id a then a # ds else d # replace_doc a ds)"

text \<open>
  \<open>doc.save()\<close> writes the document back under its \<open>_id\<close>. Every route saves a
  document it has just loaded, so writing the whole document equals setting the
  modified paths.
\<close>

definition save :: "admin \<Rightarrow> db \<Rightarrow> db" where
  "save a d = d\<lparr>docs := replace_doc a (docs d), writes := writes d @ [Saved (admin_id a)]\<rparr>"

text \<open>
  \<open>Admin.create\<close> with the fields the routes pass; the reset fields take the
  schema's empty values.
\<close>

definition create :: "int \<Rightarrow> string \<Rightarrow> string \<Rightarrow> string \<Rightarrow> bool \<Rightarrow> db \<Rightarrow> admin \<times> db" where
  "create now nm em ph ver d =
     (let a = \<lparr>admin_id = new_id d (docs d), name = nm, email = em, passwordHash = ph,
                isVerified = ver, loginVerificationCodeHash = [],
                loginVerificationExpiresAt = None, resetPasswordTokenHash = [],
                resetPasswordExpiresAt = None, createdAt = now\<rparr>
      in (a, d\<lparr>docs := docs d @ [a], writes := writes d @ [Created (admin_id a)]\<rparr>))"

fun remove_doc :: "string \<Rightarrow> admin list \<Rightarrow> admin list" where
  "remove_doc i [] = []"
| "remove_doc i (d # ds) = (if admin_id d = i then ds else d # remove_doc i ds)"

definition deleteOne :: "string \<Rightarrow> db \<Rightarrow> db" where
  "deleteOne i d = d\<lparr>docs := remove_doc i (docs d), writes := writes d @ [Deleted i]\<rparr>"

section \<open>Verification codes\<close>

definition saveVerificationCode :: "platform \<Rightarrow> int \<Rightarrow> admin \<Rightarrow> string \<Rightarrow> db \<Rightarrow> admin \<times> db" where
  "saveVerificationCode pf now a code d =
     (let a' = a\<lparr>loginVerificationCodeHash := sha256_hex pf code,
                 loginVerificationExpiresAt := Some (now + LOGIN_CODE_TTL_MS)\<rparr>
      in (a', save a' d))"

text \<open>Returns the result, the document as mutated in memory, and the store.\<close>

definition handleMissingSmtpVerification ::
  "platform \<Rightarrow> process_env \<Rightarrow> admin \<Rightarrow> db \<Rightarrow> bool \<times> admin \<times> db" where
  "handleMissingSmtpVerification pf env a d =
     (if REQUIRE_ADMIN_EMAIL_VERIFICATION pf env then (False, a, d)
      else (let a' = a\<lparr>isVerified := True, loginVerificationCodeHash := [],
                        loginVerificationExpiresAt := None\<rparr>
            in (True, a', save a' d)))"

section \<open>Seed reconciliation\<close>

definition parseAdminAccounts :: "process_env \<Rightarrow> seed list option" where
  "parseAdminAccounts env = ADMIN_ACCOUNTS env"

text \<open>The body of the loop of \<open>ensureSeedAdmins\<close>, for one seed.\<close>

definition seed_pass :: "platform \<Rightarrow> int \<Rightarrow> seed \<Rightarrow> db \<Rightarrow> db" where
  "seed_pass pf now s d =
     (if \<not> truthy (seed_email s) \<or> \<not> truthy (seed_password s) then d
      else
        let normalizedEmail = js_toLowerCase pf (js_trim pf (or_default (seed_email s) []));
            pw = or_default (seed_password s) []
        in case findOne (\<lambda>a. email a = normalizedEmail) d of
             Some existing \<Rightarrow>
               if forceSync s then
                 let passwordMatches = bcrypt_compare pf pw (passwordHash existing);
                     e1 = (if \<not> passwordMatches
                           then existing\<lparr>passwordHash := bcrypt_hash pf pw\<rparr> else existing);
                     nameDiffers = (name existing \<noteq> or_default (seed_name s) []);
                     e2 = (if nameDiffers then e1\<lparr>name := or_default (seed_name s) []\<rparr> else e1);
                     e3 = (if \<not> isVerified existing then e2\<lparr>isVerified := True\<rparr> else e2);
                     shouldSave = (\<not> passwordMatches \<or> nameDiffers \<or> \<not> isVerified existing)
                 in if shouldSave
                    then save (e3\<lparr>loginVerificationCodeHash := [],
                                  loginVerificationExpiresAt := None\<rparr>) d
                    else d
               else d
           | None \<Rightarrow>
               snd (create now (or_default (seed_name s) []) normalizedEmail
                      (bcrypt_hash pf pw) True d))"

definition singleSeed :: "process_env \<Rightarrow> seed list" where
  "singleSeed env =
     [\<lparr>seed_email = Some (or_default (ADMIN_EMAIL env) DEFAULT_PRIMARY_ADMIN_EMAIL),
       seed_password = Some (or_default (ADMIN_PASSWORD env) DEFAULT_PRIMARY_ADMIN_PASSWORD),
       seed_name = Some (or_default (ADMIN_NAME env) DEFAULT_PRIMARY_ADMIN_NAME),
       forceSync = True\<rparr>]"

definition seeds_of :: "process_env \<Rightarrow> seed list" where
  "seeds_of env =
     (case parseAdminAccounts env of
        Some fromList \<Rightarrow> if fromList \<noteq> [] then fromList else singleSeed env
      | None \<Rightarrow> singleSeed env)"

definition ensureSeedAdmins :: "process_env \<Rightarrow> platform \<Rightarrow> int \<Rightarrow> db \<Rightarrow> db" where
  "ensureSeedAdmins env pf now d = fold (seed_pass pf now) (seeds_of env) d"

section \<open>E-mail delivery\<close>

text \<open>
  The data of the \<open>emailSettings\<close> content document. \<open>getEmailSettings\<close> returns the
  empty object when the document or its data is missing or the lookup fails.
\<close>

record email_settings =
  smtpHost :: "string option"
  smtpPort :: "string option"
  smtpSecure :: "string option"
  smtpUser :: "string option"
  smtpPass :: "string option"
  contactFromEmail :: "string option"

definition no_settings :: email_settings where
  "no_settings = \<lparr>smtpHost = None, smtpPort = None, smtpSecure = None, smtpUser = None,
                    smtpPass = None, contactFromEmail = None\<rparr>"

definition getEmailSettings :: "email_settings option \<Rightarrow> email_settings" where
  "getEmailSettings doc = (case doc of None \<Rightarrow> no_settings | Some st \<Rightarrow> st)"

text \<open>What \<open>nodemailer.createTransport\<close> is called with.\<close>

datatype transport =
    GmailService string string
  | SmtpServer string "int option" bool string string

definition createTransporter :: "process_env \<Rightarrow> platform \<Rightarrow> email_settings \<Rightarrow> transport option" where
  "createTransporter env pf st =
     (let host = js_or (smtpHost st) (SMTP_HOST env);
          user = js_or (smtpUser st) (js_or (SMTP_USER env) (EMAIL_USER env));
          pass = js_or (smtpPass st) (js_or (SMTP_PASS env) (EMAIL_PASS env))
      in if \<not> truthy user \<or> \<not> truthy pass then None
         else if \<not> truthy host
           then Some (GmailService (or_default user []) (or_default pass []))
         else
           let p = js_or (smtpPort st) (SMTP_PORT env);
               port = (if truthy p then js_Number pf (or_default p []) else Some 587);
               secure = (case smtpSecure st of
                           Some v \<Rightarrow> js_toLowerCase pf v = ''true''
                         | None \<Rightarrow>
                             (case SMTP_SECURE env of
                                Some v \<Rightarrow> js_toLowerCase pf v = ''true''
                              | None \<Rightarrow> port = Some 465))
           in Some (SmtpServer (or_default host []) port secure
                      (or_default user []) (or_default pass [])))"

definition getResendApiKey :: "platform \<Rightarrow> process_env \<Rightarrow> email_settings \<Rightarrow> string" where
  "getResendApiKey pf env st =
     (if truthy (RESEND_API_KEY env) then or_default (RESEND_API_KEY env) []
      else
        let host = js_toLowerCase pf (or_default (js_or (smtpHost st) (SMTP_HOST env)) []);
            user = js_toLowerCase pf (or_default (js_or (smtpUser st) (SMTP_USER env)) []);
            pass = or_default (js_or (smtpPass st) (SMTP_PASS env)) []
        in if js_includes host ''resend.com'' \<and> user = ''resend'' \<and> pass \<noteq> [] then pass
           else [])"

definition sender_address :: "process_env \<Rightarrow> email_settings \<Rightarrow> string option" where
  "sender_address env st =
     js_or (contactFromEmail st) (js_or (CONTACT_FROM_EMAIL env)
       (js_or (smtpUser st) (js_or (SMTP_USER env) (EMAIL_USER env))))"

text \<open>
  The outside world of one request: what the HTTP call to the mail API does for an
  API key and a sender, and whether \<open>sendMail\<close> on a transport resolves. Neither
  depends on the text of the message.
\<close>

datatype fetch_outcome = Responded bool | FetchFailed

record mail_world =
  fetch_result :: "string \<Rightarrow> string \<Rightarrow> fetch_outcome"
  sendMail_result :: "transport \<Rightarrow> bool"

datatype exn = FetchError | SendMailError

definition sendWithResend ::
  "platform \<Rightarrow> process_env \<Rightarrow> email_settings \<Rightarrow> mail_world \<Rightarrow> exn + bool" where
  "sendWithResend pf env st w =
     (let apiKey = getResendApiKey pf env st
      in if apiKey = [] then Inr False
         else let from = sender_address env st
              in if \<not> truthy from then Inr False
                 else (case fetch_result w apiKey (or_default from []) of
                         Responded ok \<Rightarrow> Inr ok
                       | FetchFailed \<Rightarrow> Inl FetchError))"

definition sendVerificationCode ::
  "process_env \<Rightarrow> platform \<Rightarrow> email_settings option \<Rightarrow> mail_world \<Rightarrow> string \<Rightarrow> string
     \<Rightarrow> exn + bool" where
  "sendVerificationCode env pf doc w em code =
     (let settings = getEmailSettings doc
      in case sendWithResend pf env settings w of
           Inl e \<Rightarrow> Inl e
         | Inr sentViaResend \<Rightarrow>
             if sentViaResend then Inr True
             else (case createTransporter env pf settings of
                     None \<Rightarrow> Inr False
                   | Some transporter \<Rightarrow>
                       if sendMail_result w transporter then Inr True else Inl SendMailError))"

section \<open>Requests and responses\<close>

text \<open>The token \<open>jwt.sign\<close> returns, represented by what it was signed from.\<close>

record jwt =
  jwt_email :: string
  jwt_role :: string
  jwt_id :: string
  signing_key :: string
  expiresIn :: string

definition jwt_sign :: "admin \<Rightarrow> string \<Rightarrow> jwt" where
  "jwt_sign a secret =
     \<lparr>jwt_email = email a, jwt_role = ''admin'', jwt_id = admin_id a,
      signing_key = secret, expiresIn = ''1d''\<rparr>"

record admin_summary =
  summary_email :: string
  summary_role :: string
  summary_name :: string

definition summary_of :: "admin \<Rightarrow> admin_summary" where
  "summary_of a = \<lparr>summary_email = email a, summary_role = ''admin'', summary_name = name a\<rparr>"

text \<open>The status and the JSON body of a response; a field that is not sent is \<open>None\<close>.\<close>

record response =
  status :: nat
  message :: "string option"
  token :: "jwt option"
  admin_field :: "admin_summary option"
  verificationCode :: "string option"
  resetCode :: "string option"
  verificationRequired :: "bool option"
  email_field :: "string option"

definition reply :: "nat \<Rightarrow> string \<Rightarrow> response" where
  "reply st msg =
     \<lparr>status = st, message = Some msg, token = None, admin_field = None,
      verificationCode = None, resetCode = None, verificationRequired = None,
      email_field = None\<rparr>"

text \<open>The fields of the request body, and the requester the auth middleware attaches.\<close>

record body =
  body_name :: "string option"
  body_email :: "string option"
  body_password :: "string option"
  body_code :: "string option"
  body_token :: "string option"
  body_newPassword :: "string option"

record requester =
  requester_id :: "string option"
  requester_email :: "string option"

definition production :: "process_env \<Rightarrow> bool" where
  "production env = (NODE_ENV env = Some ''production'')"

definition formatVerificationResponse :: "process_env \<Rightarrow> string \<Rightarrow> bool \<Rightarrow> string \<Rightarrow> response" where
  "formatVerificationResponse env baseMessage codeSent code =
     (if codeSent then reply 200 baseMessage
      else if \<not> production env
        then (reply 200 ''SMTP is not configured. Use this verification code locally.'')
               \<lparr>verificationCode := Some code\<rparr>
      else reply 200 ''Email is not configured. Set SMTP credentials in server .env.'')"

section \<open>Routes\<close>

text \<open>
  Every route takes the configuration, the time of the request, the store and the
  request, and returns the response with the store as the request leaves it. The
  code that \<open>generateVerificationCode\<close> draws in the request is the argument \<open>code\<close>.
  An exception from the mail path is caught by the route and answered with 500.
\<close>

definition delete_admin :: "platform \<Rightarrow> string option \<Rightarrow> requester \<Rightarrow> db \<Rightarrow> response \<times> db" where
  "delete_admin pf param rq d =
     (let targetId = or_default param []
      in if targetId = [] then (reply 400 ''Admin id is required'', d)
         else if countDocuments d \<le> 1
           then (reply 400 ''Cannot delete the last admin account'', d)
         else (case findById targetId d of
                 None \<Rightarrow> (reply 404 ''Admin not found'', d)
               | Some targetAdmin \<Rightarrow>
                   let requesterId = or_default (requester_id rq) [];
                       requesterEmail = js_toLowerCase pf (js_trim pf (or_default (requester_email rq) []))
                   in if (requesterId \<noteq> [] \<and> requesterId = admin_id targetAdmin)
                         \<or> (requesterEmail \<noteq> []
                             \<and> requesterEmail = js_toLowerCase pf (email targetAdmin))
                      then (reply 400 ''You cannot delete your own admin account'', d)
                      else (reply 200 ''Admin removed successfully'',
                            deleteOne (admin_id targetAdmin) d)))"

definition verification_pending :: "response \<Rightarrow> nat \<Rightarrow> string \<Rightarrow> response" where
  "verification_pending payload st em =
     payload\<lparr>status := st, verificationRequired := Some True, email_field := Some em\<rparr>"

definition signup ::
  "process_env \<Rightarrow> platform \<Rightarrow> email_settings option \<Rightarrow> mail_world \<Rightarrow> int \<Rightarrow> string \<Rightarrow> body \<Rightarrow> db
     \<Rightarrow> response \<times> db" where
  "signup env pf doc w now code b d0 =
     (if js_toLowerCase pf (or_default (DISABLE_PUBLIC_ADMIN_SIGNUP env) ''true'') = ''true''
      then (reply 403 ''Admin signup is disabled.'', d0)
      else
        let d = ensureSeedAdmins env pf now d0;
            nm = js_trim pf (or_default (body_name b) []);
            em = js_toLowerCase pf (js_trim pf (or_default (body_email b) []));
            password = or_default (body_password b) []
        in if em = [] \<or> password = []
           then (reply 400 ''Email and password are required'', d)
           else if js_length pf password < 6
           then (reply 400 ''Password must be at least 6 characters'', d)
           else (case findOne (\<lambda>a. email a = em) d of
                   Some existing \<Rightarrow>
                     (reply 409 ''Admin account already exists for this email'', d)
                 | None \<Rightarrow>
                     let (a0, d1) = create now nm em (bcrypt_hash pf password) False d;
                         (a1, d2) = saveVerificationCode pf now a0 code d1
                     in (case sendVerificationCode env pf doc w em code of
                           Inl e \<Rightarrow> (reply 500 ''Failed to create admin account'', d2)
                         | Inr sent \<Rightarrow>
                             if \<not> sent then
                               let (autoVerified, a2, d3) = handleMissingSmtpVerification pf env a1 d2
                               in if autoVerified
                                  then ((reply 201
                                           ''Admin created and verified (SMTP not configured).'')
                                          \<lparr>verificationRequired := Some False,
                                           email_field := Some em\<rparr>, d3)
                                  else (verification_pending
                                          (formatVerificationResponse env
                                             ''Verification code sent to your email.'' sent code)
                                          200 em, d3)
                             else (verification_pending
                                     (formatVerificationResponse env
                                        ''Verification code sent to your email.'' sent code)
                                     201 em, d2))))"

definition resend_verification ::
  "process_env \<Rightarrow> platform \<Rightarrow> email_settings option \<Rightarrow> mail_world \<Rightarrow> int \<Rightarrow> string \<Rightarrow> body \<Rightarrow> db
     \<Rightarrow> response \<times> db" where
  "resend_verification env pf doc w now code b d =
     (let em = js_toLowerCase pf (js_trim pf (or_default (body_email b) []))
      in if em = [] then (reply 400 ''Email is required'', d)
         else (case findOne (\<lambda>a. email a = em) d of
                 None \<Rightarrow> (reply 404 ''Admin account not found'', d)
               | Some a \<Rightarrow>
                   if isVerified a then (reply 400 ''Admin is already verified'', d)
                   else
                     let (a1, d1) = saveVerificationCode pf now a code d
                     in (case sendVerificationCode env pf doc w em code of
                           Inl e \<Rightarrow> (reply 500 ''Failed to resend verification code'', d1)
                         | Inr sent \<Rightarrow>
                             if \<not> sent then
                               let (autoVerified, a2, d2) = handleMissingSmtpVerification pf env a1 d1
                               in if autoVerified
                                  then (reply 200 ''Admin verified (SMTP not configured).'', d2)
                                  else (formatVerificationResponse env
                                          ''Verification code sent to your email.'' sent code, d2)
                             else (formatVerificationResponse env
                                     ''Verification code sent to your email.'' sent code, d1))))"

definition session_reply :: "process_env \<Rightarrow> admin \<Rightarrow> string option \<Rightarrow> response" where
  "session_reply env a msg =
     \<lparr>status = 200, message = msg, token = Some (jwt_sign a (JWT_SECRET env)),
      admin_field = Some (summary_of a), verificationCode = None, resetCode = None,
      verificationRequired = None, email_field = None\<rparr>"

definition login ::
  "process_env \<Rightarrow> platform \<Rightarrow> email_settings option \<Rightarrow> mail_world \<Rightarrow> int \<Rightarrow> string \<Rightarrow> body \<Rightarrow> db
     \<Rightarrow> response \<times> db" where
  "login env pf doc w now code b d0 =
     (let d = ensureSeedAdmins env pf now d0
      in if \<not> truthy (body_email b) \<or> \<not> truthy (body_password b)
         then (reply 400 ''Email and password are required'', d)
         else (case findOne (\<lambda>a. email a = js_toLowerCase pf (js_trim pf (or_default (body_email b) []))) d of
                 None \<Rightarrow> (reply 401 ''Invalid credentials'', d)
               | Some a \<Rightarrow>
                   if \<not> bcrypt_compare pf (or_default (body_password b) []) (passwordHash a)
                   then (reply 401 ''Invalid credentials'', d)
                   else if \<not> isVerified a then
                     let (a1, d1) = saveVerificationCode pf now a code d
                     in (case sendVerificationCode env pf doc w (email a1) code of
                           Inl e \<Rightarrow> (reply 500 ''Failed to login'', d1)
                         | Inr sent \<Rightarrow>
                             if \<not> sent then
                               let (autoVerified, a2, d2) = handleMissingSmtpVerification pf env a1 d1
                               in if autoVerified
                                  then (session_reply env a2
                                          (Some ''Logged in (SMTP not configured).''), d2)
                                  else (verification_pending
                                          (formatVerificationResponse env
                                             ''Verification required. Code sent to your email.''
                                             sent code)
                                          403 (email a2), d2)
                             else (verification_pending
                                     (formatVerificationResponse env
                                        ''Verification required. Code sent to your email.''
                                        sent code)
                                     403 (email a1), d1))
                   else (session_reply env a None, d)))"

definition verify_login :: "process_env \<Rightarrow> platform \<Rightarrow> int \<Rightarrow> body \<Rightarrow> db \<Rightarrow> response \<times> db" where
  "verify_login env pf now b d =
     (let em = js_toLowerCase pf (js_trim pf (or_default (body_email b) []));
          code = js_trim pf (or_default (body_code b) [])
      in if em = [] \<or> code = []
         then (reply 400 ''Email and verification code are required'', d)
         else (case findOne (\<lambda>a. email a = em \<and> date_gt (loginVerificationExpiresAt a) now) d of
                 None \<Rightarrow> (reply 400 ''Invalid or expired verification code'', d)
               | Some a \<Rightarrow>
                   if sha256_hex pf code \<noteq> loginVerificationCodeHash a
                   then (reply 400 ''Invalid or expired verification code'', d)
                   else
                     let a' = a\<lparr>isVerified := True, loginVerificationCodeHash := [],
                                 loginVerificationExpiresAt := None\<rparr>
                     in (session_reply env a' (Some ''Verification successful. Logged in.''),
                         save a' d)))"

definition forgot_password ::
  "process_env \<Rightarrow> platform \<Rightarrow> email_settings option \<Rightarrow> mail_world \<Rightarrow> int \<Rightarrow> string \<Rightarrow> body \<Rightarrow> db
     \<Rightarrow> response \<times> db" where
  "forgot_password env pf doc w now resetCode' b d0 =
     (let d = ensureSeedAdmins env pf now d0;
          em = js_toLowerCase pf (js_trim pf (or_default (body_email b) []))
      in if em = [] then (reply 400 ''Email is required'', d)
         else (case findOne (\<lambda>a. email a = em) d of
                 None \<Rightarrow> (reply 200 ''If this email exists, a reset code has been sent.'', d)
               | Some a \<Rightarrow>
                   let a' = a\<lparr>resetPasswordTokenHash := sha256_hex pf resetCode',
                               resetPasswordExpiresAt := Some (now + 15 * 60 * 1000)\<rparr>;
                       d1 = save a' d;
                       settings = getEmailSettings doc
                   in (case sendWithResend pf env settings w of
                         Inl e \<Rightarrow> (reply 500 ''Failed to process forgot password request'', d1)
                       | Inr sentViaResend \<Rightarrow>
                           if \<not> sentViaResend then
                             (case createTransporter env pf settings of
                                None \<Rightarrow>
                                  if \<not> production env
                                  then ((reply 200
                                           ''Email is not configured. Use this reset code locally.'')
                                          \<lparr>resetCode := Some resetCode'\<rparr>, d1)
                                  else (reply 500
                                          ''Email is not configured. Set SMTP credentials in server .env.'',
                                        d1)
                              | Some transporter \<Rightarrow>
                                  if sendMail_result w transporter
                                  then (reply 200
                                          ''If this email exists, a reset code has been sent.'', d1)
                                  else (reply 500
                                          ''Failed to process forgot password request'', d1))
                           else (reply 200
                                   ''If this email exists, a reset code has been sent.'', d1))))"

definition reset_password :: "platform \<Rightarrow> int \<Rightarrow> body \<Rightarrow> db \<Rightarrow> response \<times> db" where
  "reset_password pf now b d =
     (let em = js_toLowerCase pf (js_trim pf (or_default (body_email b) []));
          tok = js_trim pf (or_default (body_token b) []);
          code = js_trim pf (or_default (body_code b) []);
          newPassword = or_default (body_newPassword b) []
      in if em = [] \<or> newPassword = [] \<or> (tok = [] \<and> code = [])
         then (reply 400 ''Email, reset code (or token), and new password are required'', d)
         else if js_length pf newPassword < 6
         then (reply 400 ''Password must be at least 6 characters'', d)
         else
           let resetValue = (if code \<noteq> [] then code else tok);
               tokenHash = sha256_hex pf resetValue
           in (case findOne (\<lambda>a. email a = em \<and> resetPasswordTokenHash a = tokenHash
                                  \<and> date_gt (resetPasswordExpiresAt a) now) d of
                 None \<Rightarrow> (reply 400 ''Invalid or expired reset code'', d)
               | Some a \<Rightarrow>
                   (reply 200 ''Password reset successful. Please login.'',
                    save (a\<lparr>passwordHash := bcrypt_hash pf newPassword,
                            resetPasswordTokenHash := [],
                            resetPasswordExpiresAt := None\<rparr>) d)))"

section \<open>Store invariants and views used in the statements\<close>

text \<open>
  The store keeps \<open>_id\<close> unique; the data model keeps the e-mail address unique.
\<close>

definition ids_distinct :: "db \<Rightarrow> bool" where
  "ids_distinct d = distinct (map admin_id (docs d))"

definition store_ok :: "db \<Rightarrow> bool" where
  "store_ok d = (distinct (map admin_id (docs d)) \<and> distinct (map email (docs d)))"

text \<open>A seed entry the reconciler does not skip, and the address it looks up.\<close>

definition usable :: "seed \<Rightarrow> bool" where
  "usable s = (truthy (seed_email s) \<and> truthy (seed_password s))"

definition seed_key :: "platform \<Rightarrow> seed \<Rightarrow> string" where
  "seed_key pf s = js_toLowerCase pf (js_trim pf (or_default (seed_email s) []))"

text \<open>
  An account without the three fields of the reset flow, and without the three
  fields of login-code verification.
\<close>

definition outside_reset ::
  "admin \<Rightarrow> string \<times> string \<times> string \<times> bool \<times> string \<times> int option \<times> int" where
  "outside_reset a =
     (admin_id a, name a, email a, isVerified a, loginVerificationCodeHash a,
      loginVerificationExpiresAt a, createdAt a)"

definition outside_verification ::
  "admin \<Rightarrow> string \<times> string \<times> string \<times> string \<times> string \<times> int option \<times> int" where
  "outside_verification a =
     (admin_id a, name a, email a, passwordHash a, resetPasswordTokenHash a,
      resetPasswordExpiresAt a, createdAt a)"

text \<open>The guard of the delete route: the requester's id or address is the target's.\<close>

definition own_account :: "platform \<Rightarrow> requester \<Rightarrow> admin \<Rightarrow> bool" where
  "own_account pf rq t =
     ((or_default (requester_id rq) [] \<noteq> [] \<and> or_default (requester_id rq) [] = admin_id t)
      \<or> (js_toLowerCase pf (js_trim pf (or_default (requester_email rq) [])) \<noteq> []
          \<and> js_toLowerCase pf (js_trim pf (or_default (requester_email rq) []))
              = js_toLowerCase pf (email t)))"

text \<open>
  An account agrees with a seed entry; and the state of the store after a pass over
  the seeds \<open>ss\<close> that started from \<open>d0\<close>: every entry that is not skipped has an
  account, which agrees with the entry when the entry is force-synced or the pass
  created the account.
\<close>

definition in_sync :: "platform \<Rightarrow> seed \<Rightarrow> admin \<Rightarrow> bool" where
  "in_sync pf s a =
     (bcrypt_compare pf (or_default (seed_password s) []) (passwordHash a)
      \<and> name a = or_default (seed_name s) [] \<and> isVerified a)"

definition seeds_settled :: "platform \<Rightarrow> seed list \<Rightarrow> db \<Rightarrow> db \<Rightarrow> bool" where
  "seeds_settled pf ss d0 d =
     list_all (\<lambda>s. usable s \<longrightarrow>
        (case findOne (\<lambda>a. email a = seed_key pf s) d of
           None \<Rightarrow> False
         | Some a \<Rightarrow>
             forceSync s \<or> findOne (\<lambda>a. email a = seed_key pf s) d0 = None \<longrightarrow> in_sync pf s a)) ss"

text \<open>The account as a successful verification leaves it.\<close>

definition verified_and_cleared :: "admin \<Rightarrow> admin" where
  "verified_and_cleared a =
     a\<lparr>isVerified := True, loginVerificationCodeHash := [], loginVerificationExpiresAt := None\<rparr>"

text \<open>The host, user and password \<open>createTransporter\<close> resolves from settings and environment.\<close>

definition resolved_host :: "process_env \<Rightarrow> email_settings \<Rightarrow> string option" where
  "resolved_host env st = js_or (smtpHost st) (SMTP_HOST env)"

definition resolved_user :: "process_env \<Rightarrow> email_settings \<Rightarrow> string option" where
  "resolved_user env st = js_or (smtpUser st) (js_or (SMTP_USER env) (EMAIL_USER env))"

definition resolved_pass :: "process_env \<Rightarrow> email_settings \<Rightarrow> string option" where
  "resolved_pass env st = js_or (smtpPass st) (js_or (SMTP_PASS env) (EMAIL_PASS env))"

text \<open>Both mail paths are unavailable: no API delivery and no transport.\<close>

definition delivery_unavailable ::
  "process_env \<Rightarrow> platform \<Rightarrow> email_settings option \<Rightarrow> mail_world \<Rightarrow> bool" where
  "delivery_unavailable env pf doc w =
     (sendWithResend pf env (getEmailSettings doc) w = Inr False
      \<and> createTransporter env pf (getEmailSettings doc) = None)"

section \<open>Concrete configurations and stores\<close>

text \<open>
  A platform for the concrete runs below. Its \<open>trim\<close> and \<open>toLowerCase\<close> are
  those of JavaScript on ASCII strings, which is all the runs use.
\<close>

definition is_space :: "char \<Rightarrow> bool" where
  "is_space c = (c \<in> set [CHR '' '', CHR 0x09, CHR 0x0A, CHR 0x0B, CHR 0x0C, CHR 0x0D])"

definition ascii_trim :: "string \<Rightarrow> string" where
  "ascii_trim s = rev (dropWhile is_space (rev (dropWhile is_space s)))"

definition lower_char :: "char \<Rightarrow> char" where
  "lower_char c =
     (let n = (of_char c :: nat) in if 65 \<le> n \<and> n \<le> 90 then char_of (n + 32) else c)"

definition ascii_toLowerCase :: "string \<Rightarrow> string" where
  "ascii_toLowerCase s = map lower_char s"

definition ex_platform :: platform where
  "ex_platform =
     \<lparr>js_trim = ascii_trim, js_toLowerCase = ascii_toLowerCase, js_length = length,
      js_Number = (\<lambda>s. if s = ''465'' then Some 465 else if s = ''2525'' then Some 2525 else None),
      sha256_hex = (\<lambda>s. ''sha:'' @ s), bcrypt_hash = (\<lambda>p. ''bc:'' @ p),
      bcrypt_compare = (\<lambda>p h. h = ''bc:'' @ p)\<rparr>"

definition ex_env :: process_env where
  "ex_env =
     \<lparr>JWT_SECRET_var = None, REQUIRE_ADMIN_EMAIL_VERIFICATION_var = None,
      ADMIN_ACCOUNTS = None, ADMIN_EMAIL = None, ADMIN_PASSWORD = None, ADMIN_NAME = None,
      SMTP_HOST = None, SMTP_PORT = None, SMTP_SECURE = None, SMTP_USER = None,
      SMTP_PASS = None, EMAIL_USER = None, EMAIL_PASS = None, RESEND_API_KEY = None,
      CONTACT_FROM_EMAIL = None, NODE_ENV = None, DISABLE_PUBLIC_ADMIN_SIGNUP = None\<rparr>"

definition ex_world :: mail_world where
  "ex_world = \<lparr>fetch_result = (\<lambda>k f. Responded False), sendMail_result = (\<lambda>t. True)\<rparr>"

definition ex_body :: body where
  "ex_body =
     \<lparr>body_name = None, body_email = None, body_password = None, body_code = None,
      body_token = None, body_newPassword = None\<rparr>"

text \<open>An identifier longer than every identifier in use.\<close>

definition ex_new_id :: "admin list \<Rightarrow> string" where
  "ex_new_id ds = replicate (Suc (foldr (\<lambda>a m. max (length (admin_id a)) m) ds 0)) CHR ''0''"

definition ann :: admin where
  "ann =
     \<lparr>admin_id = ''a1'', name = ''Ann'', email = ''ann@x.com'', passwordHash = ''bc:secret1'',
      isVerified = False, loginVerificationCodeHash = ''sha:123456'',
      loginVerificationExpiresAt = Some 1000, resetPasswordTokenHash = ''sha:654321'',
      resetPasswordExpiresAt = Some 2000, createdAt = 0\<rparr>"

definition bob :: admin where
  "bob =
     \<lparr>admin_id = ''b2'', name = ''Bob'', email = ''bob@x.com'', passwordHash = ''bc:secret2'',
      isVerified = True, loginVerificationCodeHash = [],
      loginVerificationExpiresAt = None, resetPasswordTokenHash = [],
      resetPasswordExpiresAt = None, createdAt = 0\<rparr>"

definition ex_db :: db where
  "ex_db = \<lparr>docs = [ann, bob], writes = [], new_id = ex_new_id\<rparr>"

definition verify_body :: body where
  "verify_body = ex_body\<lparr>body_email := Some ''ann@x.com'', body_code := Some ''123456''\<rparr>"

definition reset_body :: body where
  "reset_body = ex_body\<lparr>body_email := Some ''ann@x.com'', body_code := Some ''654321'',
                        body_newPassword := Some ''newsecret''\<rparr>"

definition bob_rq :: requester where
  "bob_rq = \<lparr>requester_id = Some ''b2'', requester_email = Some ''bob@x.com''\<rparr>"

definition login_body :: "string \<Rightarrow> string \<Rightarrow> body" where
  "login_body em pw = ex_body\<lparr>body_email := Some em, body_password := Some pw\<rparr>"

definition strict_env :: process_env where
  "strict_env = ex_env\<lparr>REQUIRE_ADMIN_EMAIL_VERIFICATION_var := Some ''true''\<rparr>"

definition strict_production_env :: process_env where
  "strict_production_env = strict_env\<lparr>NODE_ENV := Some ''production''\<rparr>"

definition gmail_env :: process_env where
  "gmail_env = ex_env\<lparr>EMAIL_USER := Some ''me@gmail.com'', EMAIL_PASS := Some ''pw''\<rparr>"

definition smtp_env :: process_env where
  "smtp_env = ex_env\<lparr>SMTP_HOST := Some ''mail.x.com'', SMTP_USER := Some ''u'',
                      SMTP_PASS := Some ''pw'', SMTP_PORT := Some ''465''\<rparr>"

definition carl_seed :: seed where
  "carl_seed = \<lparr>seed_email = Some ''carl@x.com'', seed_password = Some ''p1'',
                 seed_name = Some ''Carl'', forceSync = True\<rparr>"

definition bob_seed :: seed where
  "bob_seed = \<lparr>seed_email = Some ''bob@x.com'', seed_password = Some ''other'',
                seed_name = Some ''Bob'', forceSync = False\<rparr>"

definition ann_seed :: seed where
  "ann_seed = \<lparr>seed_email = Some ''ann@x.com'', seed_password = Some ''fresh1'',
                seed_name = Some ''Ann'', forceSync = True\<rparr>"

definition duplicate_env :: process_env where
  "duplicate_env =
     ex_env\<lparr>ADMIN_ACCOUNTS := Some [carl_seed, carl_seed\<lparr>seed_password := Some ''p2''\<rparr>]\<rparr>"

definition sync_env :: process_env where
  "sync_env = ex_env\<lparr>ADMIN_ACCOUNTS := Some [ann_seed, carl_seed, bob_seed]\<rparr>"

section \<open>Facts about the store\<close>

lemma replace_doc_map:
  "distinct (map admin_id ds) \<Longrightarrow>
   replace_doc a ds = map (\<lambda>x. if admin_id x = admin_id a then a else x) ds"
proof (induction ds)
  case Nil
  then show ?case by simp
next
  case (Cons d ds)
  show ?case
  proof (cases "admin_id d = admin_id a")
    case True
    from Cons.prems have "admin_id d \<notin> admin_id ` set ds" by simp
    with True have "\<forall>x \<in> set ds. admin_id x \<noteq> admin_id a" by (metis imageI)
    then have "map (\<lambda>x. if admin_id x = admin_id a then a else x) ds = ds"
      by (simp add: map_idI)
    with True show ?thesis by simp
  next
    case False
    with Cons show ?thesis by simp
  qed
qed

lemma map_admin_id_replace_doc: "map admin_id (replace_doc a ds) = map admin_id ds"
  by (induction ds) auto

lemma find_replace_doc:
  "admin_id a \<in> admin_id ` set ds \<Longrightarrow>
   find (\<lambda>x. admin_id x = admin_id a) (replace_doc a ds) = Some a"
  by (induction ds) auto

lemma distinct_map_eq:
  "distinct (map f xs) \<Longrightarrow> x \<in> set xs \<Longrightarrow> y \<in> set xs \<Longrightarrow> f x = f y \<Longrightarrow> x = y"
  by (meson distinct_map inj_onD)

lemma find_SomeD: "find P xs = Some x \<Longrightarrow> x \<in> set xs \<and> P x"
  by (induction xs) (auto split: if_splits)

lemma find_None_iff': "find P xs = None \<longleftrightarrow> (\<forall>x \<in> set xs. \<not> P x)"
  by (induction xs) auto

lemma frame_replace_doc:
  assumes "distinct (map admin_id ds)" "a \<in> set ds" "admin_id a' = admin_id a" "f a' = f a"
  shows "map f (replace_doc a' ds) = map f ds"
proof -
  have "map f (map (\<lambda>x. if admin_id x = admin_id a' then a' else x) ds) = map f ds"
    unfolding map_map
  proof (rule map_cong[OF refl])
    fix x assume x: "x \<in> set ds"
    show "(f \<circ> (\<lambda>x. if admin_id x = admin_id a' then a' else x)) x = f x"
    proof (cases "admin_id x = admin_id a'")
      case True
      with assms x have "x = a" by (auto intro: distinct_map_eq[of admin_id ds])
      with True assms show ?thesis by simp
    next
      case False
      then show ?thesis by simp
    qed
  qed
  with assms show ?thesis by (simp add: replace_doc_map)
qed

lemma store_ok_ex_db: "store_ok ex_db"
  by (simp add: store_ok_def ex_db_def ann_def bob_def)

lemma verify_body_email: "js_toLowerCase ex_platform (js_trim ex_platform (or_default (body_email verify_body) [])) = ''ann@x.com''"
  by (simp add: verify_body_def ex_body_def ex_platform_def or_default_def ascii_trim_def
      ascii_toLowerCase_def lower_char_def is_space_def)

lemma verify_body_code: "js_trim ex_platform (or_default (body_code verify_body) []) = ''123456''"
  by (simp add: verify_body_def ex_body_def ex_platform_def or_default_def ascii_trim_def
      is_space_def)

lemma find_by_id: "find (\<lambda>a. admin_id a = i) ds = Some t \<Longrightarrow> admin_id t = i \<and> t \<in> set ds"
  by (induction ds) (auto split: if_splits)

lemma remove_doc_remove1:
  "find (\<lambda>a. admin_id a = i) ds = Some t \<Longrightarrow> remove_doc i ds = remove1 t ds"
proof (induction ds)
  case Nil
  then show ?case by simp
next
  case (Cons d ds)
  show ?case
  proof (cases "admin_id d = i")
    case True
    with Cons.prems show ?thesis by simp
  next
    case False
    with Cons.prems have f: "find (\<lambda>a. admin_id a = i) ds = Some t" by simp
    from find_by_id[OF f] False have "t \<noteq> d" by auto
    with False Cons.IH[OF f] show ?thesis by simp
  qed
qed

lemma find_append_one:
  "find P (xs @ [a]) = (case find P xs of Some x \<Rightarrow> Some x | None \<Rightarrow> if P a then Some a else None)"
  by (induction xs) auto

lemma find_replace_first:
  "find P ds = Some e \<Longrightarrow> distinct (map admin_id ds) \<Longrightarrow> admin_id e' = admin_id e \<Longrightarrow> P e' \<Longrightarrow>
   find P (replace_doc e' ds) = Some e'"
proof (induction ds)
  case Nil
  then show ?case by simp
next
  case (Cons x xs)
  show ?case
  proof (cases "P x")
    case True
    with Cons.prems show ?thesis by simp
  next
    case False
    with Cons.prems have f: "find P xs = Some e" by simp
    from find_SomeD[OF f] have "e \<in> set xs" by simp
    with Cons.prems(2) have "admin_id x \<noteq> admin_id e" by force
    with False Cons.IH[OF f] Cons.prems show ?thesis by simp
  qed
qed

lemma find_replace_other:
  "distinct (map admin_id ds) \<Longrightarrow> e \<in> set ds \<Longrightarrow> admin_id e' = admin_id e \<Longrightarrow>
   \<not> P e \<Longrightarrow> \<not> P e' \<Longrightarrow> find P (replace_doc e' ds) = find P ds"
proof (induction ds)
  case Nil
  then show ?case by simp
next
  case (Cons x xs)
  show ?case
  proof (cases "admin_id x = admin_id e'")
    case True
    with Cons.prems have "x = e"
      using distinct_map_eq[of admin_id "x # xs" x e] by simp
    with True Cons.prems show ?thesis by simp
  next
    case False
    with Cons.prems have "e \<in> set xs" by auto
    with False Cons show ?thesis by simp
  qed
qed

lemmas request_eval =
  findOne_def save_def reply_def session_reply_def or_default_def ascii_trim_def ascii_toLowerCase_def
  lower_char_def is_space_def ex_body_def ex_db_def ex_platform_def ann_def bob_def Let_def

section \<open>Login-code verification\<close>

lemma status_reply [simp]: "status (reply st msg) = st"
  by (simp add: reply_def)

lemma status_session [simp]: "status (session_reply env a m) = 200"
  by (simp add: session_reply_def)

lemma verify_login_found:
  assumes "js_toLowerCase pf (js_trim pf (or_default (body_email b) [])) \<noteq> []"
    and "js_trim pf (or_default (body_code b) []) \<noteq> []"
    and "find (\<lambda>a. email a = js_toLowerCase pf (js_trim pf (or_default (body_email b) []))
                   \<and> date_gt (loginVerificationExpiresAt a) now) (docs d) = Some a"
    and "loginVerificationCodeHash a = sha256_hex pf (js_trim pf (or_default (body_code b) []))"
  shows "verify_login env pf now b d =
           (session_reply env (verified_and_cleared a) (Some ''Verification successful. Logged in.''),
            save (verified_and_cleared a) d)"
  using assms by (simp add: verify_login_def Let_def findOne_def verified_and_cleared_def)

lemma verify_login_rejected:
  assumes "js_toLowerCase pf (js_trim pf (or_default (body_email b) [])) \<noteq> []"
    and "js_trim pf (or_default (body_code b) []) \<noteq> []"
    and "\<And>a. find (\<lambda>a. email a = js_toLowerCase pf (js_trim pf (or_default (body_email b) []))
                   \<and> date_gt (loginVerificationExpiresAt a) now) (docs d) = Some a
          \<Longrightarrow> loginVerificationCodeHash a \<noteq> sha256_hex pf (js_trim pf (or_default (body_code b) []))"
  shows "verify_login env pf now b d = (reply 400 ''Invalid or expired verification code'', d)"
  using assms by (auto simp: verify_login_def Let_def findOne_def split: option.splits)

text \<open>
  C1. In a store with unique ids and unique e-mail addresses, for a request whose
  normalized e-mail address and trimmed code are both non-empty, verify-login answers
  200 if and only if some stored account has that address, a login-code expiry strictly
  after the current time and a login-code hash equal to the SHA-256 hex hash of the
  submitted code. It then answers 200 with a session token for that account (its
  address, the role "admin" and its id, signed with the key of the process), and saves
  the account verified with the login-code hash emptied and the expiry null. In every
  other case (no account, no pending or an expired code, a different hash) it answers
  with one and the same response, 400 "Invalid or expired verification code" without a
  token, and leaves the store as it was.
\<close>

theorem verify_login_succeeds_iff:
  assumes ok: "store_ok d"
    and em: "em = js_toLowerCase pf (js_trim pf (or_default (body_email b) []))" "em \<noteq> []"
    and code: "code = js_trim pf (or_default (body_code b) [])" "code \<noteq> []"
  shows "(status (fst (verify_login env pf now b d)) = 200
            \<longleftrightarrow> (\<exists>a \<in> set (docs d). email a = em \<and> date_gt (loginVerificationExpiresAt a) now
                   \<and> loginVerificationCodeHash a = sha256_hex pf code))
       \<and> (\<forall>a \<in> set (docs d). email a = em \<and> date_gt (loginVerificationExpiresAt a) now
                   \<and> loginVerificationCodeHash a = sha256_hex pf code \<longrightarrow>
             fst (verify_login env pf now b d) =
               \<lparr>status = 200, message = Some ''Verification successful. Logged in.'',
                token = Some \<lparr>jwt_email = email a, jwt_role = ''admin'', jwt_id = admin_id a,
                              signing_key = JWT_SECRET env, expiresIn = ''1d''\<rparr>,
                admin_field = Some \<lparr>summary_email = email a, summary_role = ''admin'',
                                    summary_name = name a\<rparr>,
                verificationCode = None, resetCode = None, verificationRequired = None,
                email_field = None\<rparr>
             \<and> snd (verify_login env pf now b d) =
                 save (a\<lparr>isVerified := True, loginVerificationCodeHash := [],
                         loginVerificationExpiresAt := None\<rparr>) d
             \<and> findById (admin_id a) (snd (verify_login env pf now b d)) =
                 Some (a\<lparr>isVerified := True, loginVerificationCodeHash := [],
                         loginVerificationExpiresAt := None\<rparr>))
       \<and> (\<not> (\<exists>a \<in> set (docs d). email a = em \<and> date_gt (loginVerificationExpiresAt a) now
                   \<and> loginVerificationCodeHash a = sha256_hex pf code) \<longrightarrow>
             fst (verify_login env pf now b d) =
               \<lparr>status = 400, message = Some ''Invalid or expired verification code'',
                token = None, admin_field = None, verificationCode = None, resetCode = None,
                verificationRequired = None, email_field = None\<rparr>
             \<and> snd (verify_login env pf now b d) = d)"
proof -
  let ?P = "\<lambda>a. email a = em \<and> date_gt (loginVerificationExpiresAt a) now"
  let ?M = "\<lambda>a. ?P a \<and> loginVerificationCodeHash a = sha256_hex pf code"
  let ?ok = "\<lambda>a. \<lparr>status = 200, message = Some ''Verification successful. Logged in.'',
                token = Some \<lparr>jwt_email = email a, jwt_role = ''admin'', jwt_id = admin_id a,
                              signing_key = JWT_SECRET env, expiresIn = ''1d''\<rparr>,
                admin_field = Some \<lparr>summary_email = email a, summary_role = ''admin'',
                                    summary_name = name a\<rparr>,
                verificationCode = None, resetCode = None, verificationRequired = None,
                email_field = None\<rparr>"
  let ?c = "\<lambda>a. a\<lparr>isVerified := True, loginVerificationCodeHash := [],
                   loginVerificationExpiresAt := None\<rparr>"
  let ?no = "\<lparr>status = 400, message = Some ''Invalid or expired verification code'',
                token = None, admin_field = None, verificationCode = None, resetCode = None,
                verificationRequired = None, email_field = None\<rparr>"
  have succ: "fst (verify_login env pf now b d) = ?ok a
             \<and> snd (verify_login env pf now b d) = save (?c a) d
             \<and> findById (admin_id a) (snd (verify_login env pf now b d)) = Some (?c a)"
    if a: "a \<in> set (docs d)" "?M a" for a
  proof -
    from a have "\<exists>x \<in> set (docs d). ?P x" by blast
    then obtain a0 where f: "find ?P (docs d) = Some a0"
      by (cases "find ?P (docs d)") (auto simp: find_None_iff')
    then have "a0 \<in> set (docs d)" "email a0 = em" using find_SomeD[OF f] by auto
    with a ok have "a0 = a" by (auto simp: store_ok_def intro: distinct_map_eq[of email])
    with f a em code have 1: "verify_login env pf now b d =
               (session_reply env (verified_and_cleared a) (Some ''Verification successful. Logged in.''),
                save (verified_and_cleared a) d)"
      by (intro verify_login_found) auto
    have "admin_id (verified_and_cleared a) \<in> admin_id ` set (docs d)"
      using a by (simp add: verified_and_cleared_def)
    from find_replace_doc[OF this]
    have 2: "findById (admin_id a) (save (verified_and_cleared a) d) = Some (verified_and_cleared a)"
      by (simp add: findById_def save_def verified_and_cleared_def)
    from 1 have 3: "fst (verify_login env pf now b d) = ?ok a"
      by (simp add: session_reply_def jwt_sign_def summary_of_def verified_and_cleared_def)
    from 1 have 4: "snd (verify_login env pf now b d) = save (?c a) d"
      by (simp add: verified_and_cleared_def)
    from 2 4 have 5: "findById (admin_id a) (snd (verify_login env pf now b d)) = Some (?c a)"
      by (simp add: verified_and_cleared_def)
    from 3 4 5 show ?thesis by blast
  qed
  have rej: "fst (verify_login env pf now b d) = ?no \<and> snd (verify_login env pf now b d) = d"
    if no: "\<not> (\<exists>a \<in> set (docs d). ?M a)"
  proof -
    have "verify_login env pf now b d = (reply 400 ''Invalid or expired verification code'', d)"
    proof (rule verify_login_rejected)
      show "js_toLowerCase pf (js_trim pf (or_default (body_email b) [])) \<noteq> []" using em by simp
      show "js_trim pf (or_default (body_code b) []) \<noteq> []" using code by simp
      fix a
      assume "find (\<lambda>a. email a = js_toLowerCase pf (js_trim pf (or_default (body_email b) []))
                     \<and> date_gt (loginVerificationExpiresAt a) now) (docs d) = Some a"
      from find_SomeD[OF this] no em code
      show "loginVerificationCodeHash a \<noteq> sha256_hex pf (js_trim pf (or_default (body_code b) []))"
        by auto
    qed
    then show ?thesis by (simp add: reply_def)
  qed
  have iff: "status (fst (verify_login env pf now b d)) = 200 \<longleftrightarrow> (\<exists>a \<in> set (docs d). ?M a)"
  proof (cases "\<exists>a \<in> set (docs d). ?M a")
    case True
    then obtain a where "a \<in> set (docs d)" "?M a" by blast
    from succ[OF this] True show ?thesis by simp
  next
    case False
    from rej[OF this] False show ?thesis by simp
  qed
  from iff succ rej show ?thesis by blast
qed

theorem verify_login_succeeds_iff_witness:
  "store_ok ex_db
   \<and> token (fst (verify_login ex_env ex_platform 500 verify_body ex_db)) =
       Some \<lparr>jwt_email = ''ann@x.com'', jwt_role = ''admin'', jwt_id = ''a1'',
             signing_key = ''secretkey'', expiresIn = ''1d''\<rparr>
   \<and> status (fst (verify_login ex_env ex_platform 500 verify_body ex_db)) = 200
   \<and> findById ''a1'' (snd (verify_login ex_env ex_platform 500 verify_body ex_db)) =
       Some (ann\<lparr>isVerified := True, loginVerificationCodeHash := [],
                 loginVerificationExpiresAt := None\<rparr>)
   \<and> status (fst (verify_login ex_env ex_platform 1000 verify_body ex_db)) = 400
   \<and> token (fst (verify_login ex_env ex_platform 1000 verify_body ex_db)) = None
   \<and> snd (verify_login ex_env ex_platform 1000 verify_body ex_db) = ex_db"
proof -
  have m: "ann \<in> set (docs ex_db)" by (simp add: ex_db_def)
  have p: "email ann = ''ann@x.com'' \<and> date_gt (loginVerificationExpiresAt ann) 500
           \<and> loginVerificationCodeHash ann = sha256_hex ex_platform ''123456''"
    by (simp add: ann_def ex_platform_def)
  have n: "\<not> (\<exists>a \<in> set (docs ex_db). email a = ''ann@x.com''
            \<and> date_gt (loginVerificationExpiresAt a) 1000
            \<and> loginVerificationCodeHash a = sha256_hex ex_platform ''123456'')"
    by (simp add: ex_db_def ann_def bob_def)
  have k: "JWT_SECRET ex_env = ''secretkey''" "email ann = ''ann@x.com''" "admin_id ann = ''a1''"
    by (simp_all add: JWT_SECRET_def ex_env_def or_default_def ann_def)
  from verify_login_succeeds_iff[OF store_ok_ex_db verify_body_email[symmetric] _
      verify_body_code[symmetric], of ex_env 500] m p
  have 1: "fst (verify_login ex_env ex_platform 500 verify_body ex_db) =
               \<lparr>status = 200, message = Some ''Verification successful. Logged in.'',
                token = Some \<lparr>jwt_email = email ann, jwt_role = ''admin'', jwt_id = admin_id ann,
                              signing_key = JWT_SECRET ex_env, expiresIn = ''1d''\<rparr>,
                admin_field = Some \<lparr>summary_email = email ann, summary_role = ''admin'',
                                    summary_name = name ann\<rparr>,
                verificationCode = None, resetCode = None, verificationRequired = None,
                email_field = None\<rparr>"
    and 2: "findById (admin_id ann) (snd (verify_login ex_env ex_platform 500 verify_body ex_db)) =
       Some (ann\<lparr>isVerified := True, loginVerificationCodeHash := [],
                 loginVerificationExpiresAt := None\<rparr>)"
    by blast+
  from verify_login_succeeds_iff[OF store_ok_ex_db verify_body_email[symmetric] _
      verify_body_code[symmetric], of ex_env 1000] n
  have 3: "fst (verify_login ex_env ex_platform 1000 verify_body ex_db) =
               \<lparr>status = 400, message = Some ''Invalid or expired verification code'',
                token = None, admin_field = None, verificationCode = None, resetCode = None,
                verificationRequired = None, email_field = None\<rparr>"
    and 4: "snd (verify_login ex_env ex_platform 1000 verify_body ex_db) = ex_db"
    by blast+
  from 1 k have a: "token (fst (verify_login ex_env ex_platform 500 verify_body ex_db)) =
       Some \<lparr>jwt_email = ''ann@x.com'', jwt_role = ''admin'', jwt_id = ''a1'',
             signing_key = ''secretkey'', expiresIn = ''1d''\<rparr>"
    and b: "status (fst (verify_login ex_env ex_platform 500 verify_body ex_db)) = 200"
    by simp_all
  from 3 have c: "status (fst (verify_login ex_env ex_platform 1000 verify_body ex_db)) = 400"
    and e: "token (fst (verify_login ex_env ex_platform 1000 verify_body ex_db)) = None"
    by simp_all
  from 2 k have f: "findById ''a1'' (snd (verify_login ex_env ex_platform 500 verify_body ex_db)) =
       Some (ann\<lparr>isVerified := True, loginVerificationCodeHash := [],
                 loginVerificationExpiresAt := None\<rparr>)"
    by simp
  from store_ok_ex_db a b f c e 4 show ?thesis by blast
qed

lemma verify_login_success_cases:
  assumes "verify_login env pf now b d = (r, d')" "status r = 200"
  obtains a where
    "find (\<lambda>a. email a = js_toLowerCase pf (js_trim pf (or_default (body_email b) []))
              \<and> date_gt (loginVerificationExpiresAt a) now) (docs d) = Some a"
    "d' = save (verified_and_cleared a) d"
    "js_toLowerCase pf (js_trim pf (or_default (body_email b) [])) \<noteq> []"
    "js_trim pf (or_default (body_code b) []) \<noteq> []"
  using assms
  by (auto simp: verify_login_def Let_def findOne_def verified_and_cleared_def
      split: option.splits if_splits)

text \<open>
  C2. In a store with unique ids and unique e-mail addresses, after a verify-login
  request has succeeded, the same request (same e-mail address, same code) made again
  on the resulting store, at any time, is rejected with 400 "Invalid or expired
  verification code": the success saved the account with an empty login-code hash and
  a null expiry, and no other account has its address.
\<close>

theorem verify_login_single_use:
  assumes ok: "store_ok d"
    and run: "verify_login env pf now b d = (r, d')"
    and succ: "status r = 200"
  shows "verify_login env pf now' b d' = (reply 400 ''Invalid or expired verification code'', d')"
proof -
  let ?em = "js_toLowerCase pf (js_trim pf (or_default (body_email b) []))"
  from run succ obtain a where
    f: "find (\<lambda>a. email a = ?em \<and> date_gt (loginVerificationExpiresAt a) now) (docs d) = Some a"
    and d': "d' = save (verified_and_cleared a) d"
    and em: "?em \<noteq> []" and code: "js_trim pf (or_default (body_code b) []) \<noteq> []"
    by (rule verify_login_success_cases)
  from find_SomeD[OF f] have a: "a \<in> set (docs d)" "email a = ?em" by auto
  from ok have di: "distinct (map admin_id (docs d))" and de: "distinct (map email (docs d))"
    by (simp_all add: store_ok_def)
  have docs': "docs d' = map (\<lambda>x. if admin_id x = admin_id a then verified_and_cleared a else x) (docs d)"
    using di by (simp add: d' save_def replace_doc_map verified_and_cleared_def)
  have none: "\<not> (email x = ?em \<and> date_gt (loginVerificationExpiresAt x) now')"
    if x: "x \<in> set (docs d')" for x
  proof -
    from x docs' obtain y where y: "y \<in> set (docs d)"
      and xy: "x = (if admin_id y = admin_id a then verified_and_cleared a else y)"
      by auto
    show ?thesis
    proof (cases "admin_id y = admin_id a")
      case True
      with xy show ?thesis by (simp add: verified_and_cleared_def)
    next
      case False
      then have "y \<noteq> a" by auto
      with de y a have "email y \<noteq> email a" using distinct_map_eq[of email "docs d" y a] by blast
      with False xy a show ?thesis by simp
    qed
  qed
  then have "find (\<lambda>a. email a = ?em \<and> date_gt (loginVerificationExpiresAt a) now') (docs d') = None"
    by (simp add: find_None_iff')
  with em code show ?thesis
    by (intro verify_login_rejected) auto
qed

theorem verify_login_single_use_witness:
  "store_ok ex_db
   \<and> status (fst (verify_login ex_env ex_platform 500 verify_body ex_db)) = 200
   \<and> verify_login ex_env ex_platform 501 verify_body
        (snd (verify_login ex_env ex_platform 500 verify_body ex_db)) =
       (reply 400 ''Invalid or expired verification code'',
        snd (verify_login ex_env ex_platform 500 verify_body ex_db))"
proof -
  have s: "status (fst (verify_login ex_env ex_platform 500 verify_body ex_db)) = 200"
    by (simp add: verify_login_def verify_body_def request_eval)
  have r: "verify_login ex_env ex_platform 500 verify_body ex_db =
             (fst (verify_login ex_env ex_platform 500 verify_body ex_db),
              snd (verify_login ex_env ex_platform 500 verify_body ex_db))"
    by simp
  from verify_login_single_use[OF store_ok_ex_db r s, of 501] store_ok_ex_db s show ?thesis by blast
qed

section \<open>The two one-time-code lifecycles\<close>

lemma reset_password_cases:
  "(snd (reset_password pf now b d) = d \<and> status (fst (reset_password pf now b d)) = 400)
   \<or> (\<exists>a. find (\<lambda>a. email a = js_toLowerCase pf (js_trim pf (or_default (body_email b) []))
                  \<and> resetPasswordTokenHash a = sha256_hex pf
                       (if js_trim pf (or_default (body_code b) []) \<noteq> []
                        then js_trim pf (or_default (body_code b) [])
                        else js_trim pf (or_default (body_token b) []))
                  \<and> date_gt (resetPasswordExpiresAt a) now) (docs d) = Some a
          \<and> reset_password pf now b d =
              (reply 200 ''Password reset successful. Please login.'',
               save (a\<lparr>passwordHash := bcrypt_hash pf (or_default (body_newPassword b) []),
                       resetPasswordTokenHash := [], resetPasswordExpiresAt := None\<rparr>) d))"
  by (auto simp: reset_password_def Let_def findOne_def split: option.splits)

lemma verify_login_cases:
  "snd (verify_login env pf now b d) = d
   \<or> (\<exists>a. a \<in> set (docs d) \<and> snd (verify_login env pf now b d) = save (verified_and_cleared a) d)"
  by (auto simp: verify_login_def Let_def findOne_def verified_and_cleared_def
      split: option.splits dest: find_SomeD)

text \<open>
  C6. In a store with unique ids, a reset-password request changes at most the
  password hash, the reset-token hash and the reset-token expiry of an account: every
  account keeps its id, name, e-mail address, verified flag, login-code hash,
  login-code expiry and creation time. A verify-login request changes at most the
  verified flag, the login-code hash and the login-code expiry: every account keeps
  its id, name, e-mail address, password hash, reset-token hash, reset-token expiry
  and creation time.
\<close>

theorem reset_and_verification_frames:
  assumes "ids_distinct d"
  shows "map outside_reset (docs (snd (reset_password pf now b d))) = map outside_reset (docs d)
       \<and> map outside_verification (docs (snd (verify_login env pf now' b' d)))
           = map outside_verification (docs d)"
proof
  from assms have di: "distinct (map admin_id (docs d))" by (simp add: ids_distinct_def)
  from reset_password_cases[of pf now b d]
  show "map outside_reset (docs (snd (reset_password pf now b d))) = map outside_reset (docs d)"
  proof
    assume "snd (reset_password pf now b d) = d \<and> status (fst (reset_password pf now b d)) = 400"
    then show ?thesis by simp
  next
    assume "\<exists>a. find (\<lambda>a. email a = js_toLowerCase pf (js_trim pf (or_default (body_email b) []))
                  \<and> resetPasswordTokenHash a = sha256_hex pf
                       (if js_trim pf (or_default (body_code b) []) \<noteq> []
                        then js_trim pf (or_default (body_code b) [])
                        else js_trim pf (or_default (body_token b) []))
                  \<and> date_gt (resetPasswordExpiresAt a) now) (docs d) = Some a
          \<and> reset_password pf now b d =
              (reply 200 ''Password reset successful. Please login.'',
               save (a\<lparr>passwordHash := bcrypt_hash pf (or_default (body_newPassword b) []),
                       resetPasswordTokenHash := [], resetPasswordExpiresAt := None\<rparr>) d)"
    then obtain a where f: "a \<in> set (docs d)"
      and r: "snd (reset_password pf now b d) =
               save (a\<lparr>passwordHash := bcrypt_hash pf (or_default (body_newPassword b) []),
                       resetPasswordTokenHash := [], resetPasswordExpiresAt := None\<rparr>) d"
      by (auto dest: find_SomeD)
    show ?thesis
      unfolding r using frame_replace_doc[OF di f, of _ outside_reset]
      by (simp add: save_def outside_reset_def)
  qed
  from verify_login_cases[of env pf now' b' d]
  show "map outside_verification (docs (snd (verify_login env pf now' b' d)))
           = map outside_verification (docs d)"
  proof
    assume "snd (verify_login env pf now' b' d) = d"
    then show ?thesis by simp
  next
    assume "\<exists>a. a \<in> set (docs d) \<and> snd (verify_login env pf now' b' d) = save (verified_and_cleared a) d"
    then obtain a where f: "a \<in> set (docs d)"
      and r: "snd (verify_login env pf now' b' d) = save (verified_and_cleared a) d"
      by blast
    show ?thesis
      unfolding r using frame_replace_doc[OF di f, of _ outside_verification]
      by (simp add: save_def outside_verification_def verified_and_cleared_def)
  qed
qed

theorem reset_and_verification_frames_witness:
  "ids_distinct ex_db
   \<and> status (fst (reset_password ex_platform 500 reset_body ex_db)) = 200
   \<and> docs (snd (reset_password ex_platform 500 reset_body ex_db)) \<noteq> docs ex_db
   \<and> map outside_reset (docs (snd (reset_password ex_platform 500 reset_body ex_db)))
       = map outside_reset (docs ex_db)
   \<and> status (fst (verify_login ex_env ex_platform 500 verify_body ex_db)) = 200
   \<and> docs (snd (verify_login ex_env ex_platform 500 verify_body ex_db)) \<noteq> docs ex_db
   \<and> map outside_verification (docs (snd (verify_login ex_env ex_platform 500 verify_body ex_db)))
       = map outside_verification (docs ex_db)"
proof -
  have i: "ids_distinct ex_db"
    by (simp add: ids_distinct_def ex_db_def ann_def bob_def)
  have 1: "status (fst (reset_password ex_platform 500 reset_body ex_db)) = 200"
    and 2: "docs (snd (reset_password ex_platform 500 reset_body ex_db)) \<noteq> docs ex_db"
    by (simp_all add: reset_password_def reset_body_def request_eval)
  have 3: "status (fst (verify_login ex_env ex_platform 500 verify_body ex_db)) = 200"
    and 4: "docs (snd (verify_login ex_env ex_platform 500 verify_body ex_db)) \<noteq> docs ex_db"
    by (simp_all add: verify_login_def verify_body_def request_eval)
  from reset_and_verification_frames[OF i, of ex_platform 500 reset_body ex_env 500 verify_body] i 1 2 3 4
  show ?thesis by blast
qed

text \<open>
  C8. When no stored account has the normalized e-mail address of a reset-password
  request together with a reset-token hash equal to the hash of the supplied code (or
  token) and a reset-token expiry strictly after the current time, the request is
  answered with status 400 and the store is left exactly as it was, password hashes
  included; when the request also passes input validation (address, code or token and
  new password present, new password of length at least 6), the answer is the uniform
  "Invalid or expired reset code".
\<close>

theorem reset_password_rejection_keeps_store:
  assumes em: "em = js_toLowerCase pf (js_trim pf (or_default (body_email b) []))"
    and v: "v = (if js_trim pf (or_default (body_code b) []) \<noteq> []
                 then js_trim pf (or_default (body_code b) [])
                 else js_trim pf (or_default (body_token b) []))"
    and no: "\<not> (\<exists>a \<in> set (docs d). email a = em \<and> resetPasswordTokenHash a = sha256_hex pf v
                 \<and> date_gt (resetPasswordExpiresAt a) now)"
  shows "snd (reset_password pf now b d) = d
       \<and> status (fst (reset_password pf now b d)) = 400
       \<and> (em \<noteq> [] \<and> v \<noteq> [] \<and> or_default (body_newPassword b) [] \<noteq> []
            \<and> 6 \<le> js_length pf (or_default (body_newPassword b) []) \<longrightarrow>
            fst (reset_password pf now b d) =
              \<lparr>status = 400, message = Some ''Invalid or expired reset code'', token = None,
               admin_field = None, verificationCode = None, resetCode = None,
               verificationRequired = None, email_field = None\<rparr>)"
proof -
  from no have "find (\<lambda>a. email a = em \<and> resetPasswordTokenHash a = sha256_hex pf v
                 \<and> date_gt (resetPasswordExpiresAt a) now) (docs d) = None"
    by (simp add: find_None_iff')
  then show ?thesis
    unfolding em v
    by (auto simp: reset_password_def Let_def findOne_def reply_def split: if_splits)
qed

theorem reset_password_rejection_keeps_store_witness:
  "\<not> (\<exists>a \<in> set (docs ex_db). email a = ''ann@x.com''
        \<and> resetPasswordTokenHash a = sha256_hex ex_platform ''654321''
        \<and> date_gt (resetPasswordExpiresAt a) 2000)
   \<and> reset_password ex_platform 2000 reset_body ex_db
       = (reply 400 ''Invalid or expired reset code'', ex_db)
   \<and> \<not> (\<exists>a \<in> set (docs ex_db). email a = ''ann@x.com''
        \<and> resetPasswordTokenHash a = sha256_hex ex_platform ''111111''
        \<and> date_gt (resetPasswordExpiresAt a) 500)
   \<and> reset_password ex_platform 500 (reset_body\<lparr>body_code := Some ''111111''\<rparr>) ex_db
       = (reply 400 ''Invalid or expired reset code'', ex_db)"
proof -
  have e: "''ann@x.com'' = js_toLowerCase ex_platform (js_trim ex_platform (or_default (body_email reset_body) []))"
    "''ann@x.com'' = js_toLowerCase ex_platform (js_trim ex_platform (or_default (body_email (reset_body\<lparr>body_code := Some ''111111''\<rparr>)) []))"
    by (simp_all add: reset_body_def request_eval)
  have v1: "''654321'' = (if js_trim ex_platform (or_default (body_code reset_body) []) \<noteq> []
                 then js_trim ex_platform (or_default (body_code reset_body) [])
                 else js_trim ex_platform (or_default (body_token reset_body) []))"
    by (simp add: reset_body_def request_eval)
  have v2: "''111111'' = (if js_trim ex_platform (or_default (body_code (reset_body\<lparr>body_code := Some ''111111''\<rparr>)) []) \<noteq> []
                 then js_trim ex_platform (or_default (body_code (reset_body\<lparr>body_code := Some ''111111''\<rparr>)) [])
                 else js_trim ex_platform (or_default (body_token (reset_body\<lparr>body_code := Some ''111111''\<rparr>)) []))"
    by (simp add: reset_body_def request_eval)
  have n1: "\<not> (\<exists>a \<in> set (docs ex_db). email a = ''ann@x.com''
        \<and> resetPasswordTokenHash a = sha256_hex ex_platform ''654321''
        \<and> date_gt (resetPasswordExpiresAt a) 2000)"
    by (simp add: ex_db_def ann_def bob_def)
  have n2: "\<not> (\<exists>a \<in> set (docs ex_db). email a = ''ann@x.com''
        \<and> resetPasswordTokenHash a = sha256_hex ex_platform ''111111''
        \<and> date_gt (resetPasswordExpiresAt a) 500)"
    by (simp add: ex_db_def ann_def bob_def ex_platform_def)
  have len: "6 \<le> js_length ex_platform (or_default (body_newPassword reset_body) [])"
    "6 \<le> js_length ex_platform (or_default (body_newPassword (reset_body\<lparr>body_code := Some ''111111''\<rparr>)) [])"
    by (simp_all add: reset_body_def request_eval)
  have ne: "or_default (body_newPassword reset_body) [] \<noteq> []"
    "or_default (body_newPassword (reset_body\<lparr>body_code := Some ''111111''\<rparr>)) [] \<noteq> []"
    by (simp_all add: reset_body_def request_eval)
  from reset_password_rejection_keeps_store[OF e(1) v1 n1] len(1) ne(1)
  have 1: "reset_password ex_platform 2000 reset_body ex_db
       = (reply 400 ''Invalid or expired reset code'', ex_db)"
    by (simp add: prod_eq_iff reply_def)
  from reset_password_rejection_keeps_store[OF e(2) v2 n2] len(2) ne(2)
  have 2: "reset_password ex_platform 500 (reset_body\<lparr>body_code := Some ''111111''\<rparr>) ex_db
       = (reply 400 ''Invalid or expired reset code'', ex_db)"
    by (simp add: prod_eq_iff reply_def)
  from n1 1 n2 2 show ?thesis by blast
qed

section \<open>Deleting an admin\<close>

lemma delete_admin_last:
  "countDocuments d \<le> 1 \<Longrightarrow>
   status (fst (delete_admin pf p rq d)) = 400 \<and> snd (delete_admin pf p rq d) = d"
  by (simp add: delete_admin_def Let_def)

lemma delete_admin_own:
  assumes "findById (or_default p []) d = Some t" "own_account pf rq t"
  shows "status (fst (delete_admin pf p rq d)) = 400 \<and> snd (delete_admin pf p rq d) = d"
  using assms by (auto simp: delete_admin_def Let_def own_account_def)

lemma delete_admin_other:
  assumes "1 < countDocuments d" "or_default p [] \<noteq> []"
    "findById (or_default p []) d = Some t" "\<not> own_account pf rq t"
  shows "delete_admin pf p rq d = (reply 200 ''Admin removed successfully'', deleteOne (admin_id t) d)"
  using assms by (auto simp: delete_admin_def Let_def own_account_def)

lemma delete_admin_docs:
  "docs (snd (delete_admin pf p rq d)) = docs d
   \<or> (1 < length (docs d) \<and> (\<exists>t \<in> set (docs d). docs (snd (delete_admin pf p rq d)) = remove1 t (docs d)))"
proof (cases "findById (or_default p []) d")
  case None
  then show ?thesis by (simp add: delete_admin_def Let_def)
next
  case (Some t)
  then have f: "find (\<lambda>a. admin_id a = or_default p []) (docs d) = Some t"
    by (simp add: findById_def)
  from find_by_id[OF f] remove_doc_remove1[OF f]
  have "t \<in> set (docs d)" "remove_doc (admin_id t) (docs d) = remove1 t (docs d)" by simp_all
  with Some show ?thesis
    by (auto simp: delete_admin_def Let_def countDocuments_def deleteOne_def)
qed

lemma own_account_same:
  assumes "requester_id rq = Some (admin_id t) \<and> admin_id t \<noteq> []
           \<or> requester_email rq = Some (email t) \<and> email t \<noteq> []
              \<and> js_toLowerCase pf (js_trim pf (email t)) = email t
                 \<and> js_toLowerCase pf (email t) = email t"
  shows "own_account pf rq t"
  using assms by (auto simp: own_account_def or_default_def)

text \<open>
  C7. The delete route answers 400 and leaves the store unchanged whenever the store
  holds at most one account, whoever asks and whatever the target id; it answers 400
  and leaves the store unchanged whenever the target's id is the requester's id, or
  the target's e-mail address is the requester's (for a stored address that is
  non-empty, normalized and lower-cased, as every route stores it). With more
  than one account, a target that exists and a requester who is not the target, it
  removes the target and nothing else, so the count drops by one. No call turns a
  non-empty store into an empty one.
\<close>

theorem delete_admin_guards:
  "(countDocuments d \<le> 1 \<longrightarrow>
      status (fst (delete_admin pf p rq d)) = 400 \<and> snd (delete_admin pf p rq d) = d)
   \<and> (\<forall>t. findById (or_default p []) d = Some t
          \<and> (requester_id rq = Some (admin_id t)
              \<or> requester_email rq = Some (email t) \<and> email t \<noteq> []
                 \<and> js_toLowerCase pf (js_trim pf (email t)) = email t
                 \<and> js_toLowerCase pf (email t) = email t) \<longrightarrow>
          status (fst (delete_admin pf p rq d)) = 400 \<and> snd (delete_admin pf p rq d) = d)
   \<and> (\<forall>t. 1 < countDocuments d \<and> or_default p [] \<noteq> []
          \<and> findById (or_default p []) d = Some t \<and> \<not> own_account pf rq t \<longrightarrow>
          delete_admin pf p rq d =
            (reply 200 ''Admin removed successfully'', deleteOne (admin_id t) d)
          \<and> t \<in> set (docs d)
          \<and> docs (snd (delete_admin pf p rq d)) = remove1 t (docs d)
          \<and> countDocuments (snd (delete_admin pf p rq d)) = countDocuments d - 1)
   \<and> (docs d \<noteq> [] \<longrightarrow> docs (snd (delete_admin pf p rq d)) \<noteq> [])"
proof (intro conjI allI impI)
  assume "countDocuments d \<le> 1"
  then show "status (fst (delete_admin pf p rq d)) = 400" "snd (delete_admin pf p rq d) = d"
    using delete_admin_last by blast+
next
  fix t
  assume h: "findById (or_default p []) d = Some t
          \<and> (requester_id rq = Some (admin_id t)
              \<or> requester_email rq = Some (email t) \<and> email t \<noteq> []
                 \<and> js_toLowerCase pf (js_trim pf (email t)) = email t
                 \<and> js_toLowerCase pf (email t) = email t)"
  have "status (fst (delete_admin pf p rq d)) = 400 \<and> snd (delete_admin pf p rq d) = d"
  proof (cases "or_default p [] = []")
    case True
    then show ?thesis by (simp add: delete_admin_def Let_def)
  next
    case False
    from h have "admin_id t = or_default p []"
      by (auto simp: findById_def dest: find_by_id)
    with False h have "own_account pf rq t" by (intro own_account_same) auto
    with h show ?thesis using delete_admin_own by blast
  qed
  then show "status (fst (delete_admin pf p rq d)) = 400" "snd (delete_admin pf p rq d) = d"
    by blast+
next
  fix t
  assume h: "1 < countDocuments d \<and> or_default p [] \<noteq> []
          \<and> findById (or_default p []) d = Some t \<and> \<not> own_account pf rq t"
  then show r: "delete_admin pf p rq d =
            (reply 200 ''Admin removed successfully'', deleteOne (admin_id t) d)"
    using delete_admin_other by blast
  from h have f: "find (\<lambda>a. admin_id a = or_default p []) (docs d) = Some t"
    by (simp add: findById_def)
  from find_by_id[OF f] show t: "t \<in> set (docs d)" by simp
  from find_by_id[OF f] remove_doc_remove1[OF f]
  show d: "docs (snd (delete_admin pf p rq d)) = remove1 t (docs d)"
    by (simp add: r deleteOne_def)
  from t show "countDocuments (snd (delete_admin pf p rq d)) = countDocuments d - 1"
    by (simp add: countDocuments_def d length_remove1)
next
  assume ne: "docs d \<noteq> []"
  from delete_admin_docs[of pf p rq d]
  show "docs (snd (delete_admin pf p rq d)) \<noteq> []"
  proof
    assume "docs (snd (delete_admin pf p rq d)) = docs d"
    with ne show ?thesis by simp
  next
    assume "1 < length (docs d) \<and> (\<exists>t \<in> set (docs d). docs (snd (delete_admin pf p rq d)) = remove1 t (docs d))"
    then obtain t where l: "1 < length (docs d)" and t: "t \<in> set (docs d)"
      and r: "docs (snd (delete_admin pf p rq d)) = remove1 t (docs d)" by blast
    from t have "length (remove1 t (docs d)) = length (docs d) - 1" by (simp add: length_remove1)
    with l r have "0 < length (docs (snd (delete_admin pf p rq d)))" by simp
    then show ?thesis by simp
  qed
qed

theorem delete_admin_guards_witness:
  "countDocuments (ex_db\<lparr>docs := [ann]\<rparr>) \<le> 1
   \<and> status (fst (delete_admin ex_platform (Some ''a1'') bob_rq (ex_db\<lparr>docs := [ann]\<rparr>))) = 400
   \<and> snd (delete_admin ex_platform (Some ''a1'') bob_rq (ex_db\<lparr>docs := [ann]\<rparr>)) = ex_db\<lparr>docs := [ann]\<rparr>
   \<and> findById (or_default (Some ''b2'') []) ex_db = Some bob
   \<and> requester_id bob_rq = Some (admin_id bob)
   \<and> status (fst (delete_admin ex_platform (Some ''b2'') bob_rq ex_db)) = 400
   \<and> snd (delete_admin ex_platform (Some ''b2'') bob_rq ex_db) = ex_db
   \<and> 1 < countDocuments ex_db
   \<and> findById (or_default (Some ''a1'') []) ex_db = Some ann
   \<and> \<not> own_account ex_platform bob_rq ann
   \<and> docs (snd (delete_admin ex_platform (Some ''a1'') bob_rq ex_db)) = [bob]"
proof -
  have 1: "countDocuments (ex_db\<lparr>docs := [ann]\<rparr>) \<le> 1"
    by (simp add: countDocuments_def)
  have 2: "findById (or_default (Some ''b2'') []) ex_db = Some bob"
    by (simp add: findById_def or_default_def ex_db_def ann_def bob_def)
  have 3: "requester_id bob_rq = Some (admin_id bob)"
    by (simp add: bob_rq_def bob_def)
  have 4: "1 < countDocuments ex_db"
    by (simp add: countDocuments_def ex_db_def)
  have 5: "findById (or_default (Some ''a1'') []) ex_db = Some ann"
    by (simp add: findById_def or_default_def ex_db_def ann_def bob_def)
  have 6: "\<not> own_account ex_platform bob_rq ann"
    by (simp add: own_account_def bob_rq_def ann_def or_default_def ex_platform_def ascii_trim_def
        ascii_toLowerCase_def lower_char_def is_space_def)
  have 7: "or_default (Some ''a1'') [] \<noteq> []"
    by (simp add: or_default_def)
  have 8: "remove1 ann (docs ex_db) = [bob]"
    by (simp add: ex_db_def)
  note t = delete_admin_guards[of "ex_db\<lparr>docs := [ann]\<rparr>" ex_platform "Some ''a1''" bob_rq]
  note u = delete_admin_guards[of ex_db ex_platform "Some ''b2''" bob_rq]
  note v = delete_admin_guards[of ex_db ex_platform "Some ''a1''" bob_rq]
  from t 1 have a: "status (fst (delete_admin ex_platform (Some ''a1'') bob_rq (ex_db\<lparr>docs := [ann]\<rparr>))) = 400
    \<and> snd (delete_admin ex_platform (Some ''a1'') bob_rq (ex_db\<lparr>docs := [ann]\<rparr>)) = ex_db\<lparr>docs := [ann]\<rparr>"
    by blast
  from u 2 3 have b: "status (fst (delete_admin ex_platform (Some ''b2'') bob_rq ex_db)) = 400
    \<and> snd (delete_admin ex_platform (Some ''b2'') bob_rq ex_db) = ex_db"
    by blast
  from v 4 5 6 7 have "docs (snd (delete_admin ex_platform (Some ''a1'') bob_rq ex_db)) = remove1 ann (docs ex_db)"
    by blast
  with 8 have c: "docs (snd (delete_admin ex_platform (Some ''a1'') bob_rq ex_db)) = [bob]" by simp
  from 1 a 2 3 b 4 5 6 c show ?thesis by blast
qed

section \<open>Session tokens\<close>

lemma token_reply [simp]: "token (reply st msg) = None"
  by (simp add: reply_def)

lemma token_format [simp]: "token (formatVerificationResponse env m s c) = None"
  by (simp add: formatVerificationResponse_def)

lemma token_pending [simp]: "token (verification_pending p st em) = token p"
  by (simp add: verification_pending_def)

lemma token_session [simp]: "token (session_reply env a m) = Some (jwt_sign a (JWT_SECRET env))"
  by (simp add: session_reply_def)

lemma login_token:
  "token (fst (login env pf doc w now code b d)) = Some t \<Longrightarrow> signing_key t = JWT_SECRET env"
  by (auto simp: login_def Let_def jwt_sign_def split: option.splits sum.splits prod.splits if_splits)

lemma verify_token:
  "token (fst (verify_login env pf now b d)) = Some t \<Longrightarrow> signing_key t = JWT_SECRET env"
  by (auto simp: verify_login_def Let_def jwt_sign_def split: option.splits sum.splits prod.splits if_splits)

lemmas route_eval =
  ensureSeedAdmins_def seeds_of_def singleSeed_def parseAdminAccounts_def
  seed_pass_def create_def saveVerificationCode_def
  handleMissingSmtpVerification_def sendVerificationCode_def sendWithResend_def
  getResendApiKey_def createTransporter_def getEmailSettings_def no_settings_def sender_address_def
  formatVerificationResponse_def verification_pending_def
  REQUIRE_ADMIN_EMAIL_VERIFICATION_def production_def
  js_or_def DEFAULT_PRIMARY_ADMIN_EMAIL_def DEFAULT_PRIMARY_ADMIN_PASSWORD_def
  DEFAULT_PRIMARY_ADMIN_NAME_def LOGIN_CODE_TTL_MS_def
  ex_env_def ex_world_def ex_new_id_def login_body_def

text \<open>
  C10. When the environment variable \<open>JWT_SECRET\<close> is unset, the signing key is the
  literal "secretkey". Every token in a response of login (the direct login and the
  login through the missing-transport bypass) and of verify-login is signed with the
  signing key of the process, which depends on the environment only: not on the
  account, the request or the store.
\<close>

theorem session_signing_key:
  "(JWT_SECRET_var env = None \<longrightarrow> JWT_SECRET env = ''secretkey'')
   \<and> (\<forall>t. token (fst (login env pf doc w now code b d)) = Some t \<longrightarrow>
          signing_key t = JWT_SECRET env)
   \<and> (\<forall>t. token (fst (verify_login env pf now' b' d')) = Some t \<longrightarrow>
          signing_key t = JWT_SECRET env)"
  using login_token verify_token
  by (auto simp: JWT_SECRET_def or_default_def)

theorem session_signing_key_witness:
  "JWT_SECRET_var ex_env = None
   \<and> token (fst (login ex_env ex_platform None ex_world 500 ''111111''
                   (login_body ''bob@x.com'' ''secret2'') ex_db))
       = Some (jwt_sign bob ''secretkey'')
   \<and> message (fst (login ex_env ex_platform None ex_world 500 ''111111''
                   (login_body ''ann@x.com'' ''secret1'') ex_db))
       = Some ''Logged in (SMTP not configured).''
   \<and> token (fst (login ex_env ex_platform None ex_world 500 ''111111''
                   (login_body ''ann@x.com'' ''secret1'') ex_db))
       = Some (jwt_sign ann ''secretkey'')
   \<and> token (fst (verify_login ex_env ex_platform 500 verify_body ex_db))
       = Some (jwt_sign ann ''secretkey'')
   \<and> signing_key (jwt_sign ann ''secretkey'') = ''secretkey''"
proof -
  have u: "JWT_SECRET_var ex_env = None" by (simp add: ex_env_def)
  note c = session_signing_key[of ex_env ex_platform None ex_world 500 "''111111''"
      "login_body ''ann@x.com'' ''secret1''" ex_db 500 verify_body ex_db]
  from c u have k: "JWT_SECRET ex_env = ''secretkey''" by blast
  have 1: "token (fst (login ex_env ex_platform None ex_world 500 ''111111''
                   (login_body ''bob@x.com'' ''secret2'') ex_db))
       = Some (jwt_sign bob (JWT_SECRET ex_env))"
    by (simp add: login_def route_eval request_eval)
  have 2: "message (fst (login ex_env ex_platform None ex_world 500 ''111111''
                   (login_body ''ann@x.com'' ''secret1'') ex_db))
       = Some ''Logged in (SMTP not configured).''"
    by (simp add: login_def route_eval request_eval)
  have 3: "token (fst (login ex_env ex_platform None ex_world 500 ''111111''
                   (login_body ''ann@x.com'' ''secret1'') ex_db))
       = Some (jwt_sign ann (JWT_SECRET ex_env))"
    by (simp add: login_def route_eval request_eval jwt_sign_def)
  have 4: "token (fst (verify_login ex_env ex_platform 500 verify_body ex_db))
       = Some (jwt_sign ann (JWT_SECRET ex_env))"
    by (simp add: verify_login_def verify_body_def request_eval jwt_sign_def)
  from c 3 have 5: "signing_key (jwt_sign ann (JWT_SECRET ex_env)) = JWT_SECRET ex_env" by blast
  from u 1 2 3 4 5 show ?thesis unfolding k by blast
qed

section \<open>One-time codes in responses\<close>

lemma send_result_fixed:
  "sendVerificationCode env pf doc w em code = sendVerificationCode env pf doc w em' code'"
  by (simp add: sendVerificationCode_def)

lemma send_unavailable:
  "sendVerificationCode env pf doc w em code = Inr False \<longleftrightarrow> delivery_unavailable env pf doc w"
  by (auto simp: sendVerificationCode_def delivery_unavailable_def Let_def
      split: sum.splits option.splits if_splits)

lemma signup_code_free:
  assumes "production env \<or> \<not> delivery_unavailable env pf doc w"
  shows "fst (signup env pf doc w now c1 b d) = fst (signup env pf doc w now c2 b d)"
proof -
  obtain r where r: "\<And>em c. sendVerificationCode env pf doc w em c = r"
    using send_result_fixed by metis
  have u: "r = Inr False \<Longrightarrow> production env"
    using assms send_unavailable[of env pf doc w] r by auto
  show ?thesis
    using u
    by (cases r)
      (auto simp: signup_def Let_def r handleMissingSmtpVerification_def
        saveVerificationCode_def create_def formatVerificationResponse_def
        split: option.splits)
qed

lemma login_code_free:
  assumes "production env \<or> \<not> delivery_unavailable env pf doc w"
  shows "fst (login env pf doc w now c1 b d) = fst (login env pf doc w now c2 b d)"
proof -
  obtain r where r: "\<And>em c. sendVerificationCode env pf doc w em c = r"
    using send_result_fixed by metis
  have u: "r = Inr False \<Longrightarrow> production env"
    using assms send_unavailable[of env pf doc w] r by auto
  show ?thesis
  proof (cases r)
    case (Inl e)
    then show ?thesis
      by (simp add: login_def Let_def r saveVerificationCode_def split: option.splits)
  next
    case (Inr sent)
    show ?thesis
    proof (cases sent)
      case True
      with Inr show ?thesis
        by (simp add: login_def Let_def r saveVerificationCode_def formatVerificationResponse_def
            split: option.splits)
    next
      case False
      with Inr u have "production env" by simp
      with Inr False show ?thesis
        by (simp add: login_def Let_def r saveVerificationCode_def formatVerificationResponse_def
            handleMissingSmtpVerification_def session_reply_def jwt_sign_def summary_of_def
            split: option.splits)
    qed
  qed
qed

lemma resend_code_free:
  assumes "production env \<or> \<not> delivery_unavailable env pf doc w"
  shows "fst (resend_verification env pf doc w now c1 b d)
       = fst (resend_verification env pf doc w now c2 b d)"
proof -
  obtain r where r: "\<And>em c. sendVerificationCode env pf doc w em c = r"
    using send_result_fixed by metis
  have u: "r = Inr False \<Longrightarrow> production env"
    using assms send_unavailable[of env pf doc w] r by auto
  show ?thesis
  proof (cases r)
    case (Inl e)
    then show ?thesis
      by (simp add: resend_verification_def Let_def r saveVerificationCode_def split: option.splits)
  next
    case (Inr sent)
    show ?thesis
    proof (cases sent)
      case True
      with Inr show ?thesis
        by (simp add: resend_verification_def Let_def r saveVerificationCode_def
            formatVerificationResponse_def split: option.splits)
    next
      case False
      with Inr u have "production env" by simp
      with Inr False show ?thesis
        by (simp add: resend_verification_def Let_def r saveVerificationCode_def
            formatVerificationResponse_def handleMissingSmtpVerification_def
            split: option.splits)
    qed
  qed
qed

lemma forgot_code_free:
  assumes "production env \<or> \<not> delivery_unavailable env pf doc w"
  shows "fst (forgot_password env pf doc w now c1 b d) = fst (forgot_password env pf doc w now c2 b d)"
proof (cases "sendWithResend pf env (getEmailSettings doc) w")
  case (Inl e)
  then show ?thesis
    by (simp add: forgot_password_def Let_def split: option.splits)
next
  case (Inr sent)
  show ?thesis
  proof (cases "createTransporter env pf (getEmailSettings doc)")
    case None
    show ?thesis
    proof (cases sent)
      case True
      with Inr show ?thesis
        by (simp add: forgot_password_def Let_def split: option.splits)
    next
      case False
      with Inr None assms have "production env" by (simp add: delivery_unavailable_def)
      with Inr None False show ?thesis
        by (simp add: forgot_password_def Let_def split: option.splits)
    qed
  next
    case (Some t)
    with Inr show ?thesis
      by (simp add: forgot_password_def Let_def split: option.splits)
  qed
qed

lemma code_fields [simp]:
  "verificationCode (reply st m) = None"
  "resetCode (reply st m) = None"
  "verificationCode (session_reply env a m') = None"
  "resetCode (session_reply env a m') = None"
  "verificationCode (verification_pending p st em) = verificationCode p"
  "resetCode (verification_pending p st em) = resetCode p"
  "resetCode (formatVerificationResponse env m sent c) = None"
  "verificationCode (formatVerificationResponse env m sent c)
     = (if \<not> sent \<and> \<not> production env then Some c else None)"
  by (simp_all add: reply_def session_reply_def verification_pending_def
      formatVerificationResponse_def)

lemma signup_code_shown:
  assumes "verificationCode (fst (signup env pf doc w now c b d)) = Some x
           \<or> resetCode (fst (signup env pf doc w now c b d)) = Some x"
  shows "\<not> production env \<and> delivery_unavailable env pf doc w"
proof -
  obtain r where r: "\<And>em c. sendVerificationCode env pf doc w em c = r"
    using send_result_fixed by metis
  have u: "r = Inr False \<Longrightarrow> delivery_unavailable env pf doc w"
    using send_unavailable[of env pf doc w] r by auto
  show ?thesis
  proof (cases r)
    case (Inl e)
    with assms show ?thesis
      by (simp add: signup_def Let_def r saveVerificationCode_def create_def
          split: option.splits if_splits)
  next
    case (Inr sent)
    with assms u show ?thesis
      by (cases sent)
        (simp_all add: signup_def Let_def r saveVerificationCode_def create_def
          handleMissingSmtpVerification_def split: option.splits if_splits)
  qed
qed

lemma resend_code_shown:
  assumes "verificationCode (fst (resend_verification env pf doc w now c b d)) = Some x
           \<or> resetCode (fst (resend_verification env pf doc w now c b d)) = Some x"
  shows "\<not> production env \<and> delivery_unavailable env pf doc w"
proof -
  obtain r where r: "\<And>em c. sendVerificationCode env pf doc w em c = r"
    using send_result_fixed by metis
  have u: "r = Inr False \<Longrightarrow> delivery_unavailable env pf doc w"
    using send_unavailable[of env pf doc w] r by auto
  show ?thesis
  proof (cases r)
    case (Inl e)
    with assms show ?thesis
      by (simp add: resend_verification_def Let_def r saveVerificationCode_def
          split: option.splits if_splits)
  next
    case (Inr sent)
    with assms u show ?thesis
      by (cases sent)
        (simp_all add: resend_verification_def Let_def r saveVerificationCode_def
          handleMissingSmtpVerification_def split: option.splits if_splits)
  qed
qed

lemma login_code_shown:
  assumes "verificationCode (fst (login env pf doc w now c b d)) = Some x
           \<or> resetCode (fst (login env pf doc w now c b d)) = Some x"
  shows "\<not> production env \<and> delivery_unavailable env pf doc w"
proof -
  obtain r where r: "\<And>em c. sendVerificationCode env pf doc w em c = r"
    using send_result_fixed by metis
  have u: "r = Inr False \<Longrightarrow> delivery_unavailable env pf doc w"
    using send_unavailable[of env pf doc w] r by auto
  show ?thesis
  proof (cases r)
    case (Inl e)
    with assms show ?thesis
      by (simp add: login_def Let_def r saveVerificationCode_def
          split: option.splits if_splits)
  next
    case (Inr sent)
    with assms u show ?thesis
      by (cases sent)
        (simp_all add: login_def Let_def r saveVerificationCode_def
          handleMissingSmtpVerification_def split: option.splits if_splits)
  qed
qed

lemma forgot_code_shown:
  assumes "verificationCode (fst (forgot_password env pf doc w now c b d)) = Some x
           \<or> resetCode (fst (forgot_password env pf doc w now c b d)) = Some x"
  shows "\<not> production env \<and> delivery_unavailable env pf doc w"
proof (cases "sendWithResend pf env (getEmailSettings doc) w")
  case (Inl e)
  with assms show ?thesis
    by (simp add: forgot_password_def Let_def split: option.splits if_splits)
next
  case (Inr sent)
  show ?thesis
  proof (cases "createTransporter env pf (getEmailSettings doc)")
    case None
    with Inr assms show ?thesis
      by (cases sent)
        (simp_all add: forgot_password_def Let_def delivery_unavailable_def
          split: option.splits if_splits)
  next
    case (Some t)
    with Inr assms show ?thesis
      by (simp add: forgot_password_def Let_def split: option.splits if_splits)
  qed
qed

text \<open>
  C3. In production mode, and also whenever a mail path is available, the responses of
  signup, login, resend-verification and forgot-password do not depend on the one-time
  code drawn in the request: two runs that differ only in the code answer alike. A
  response of these routes carries a verification code or a reset code only when the
  process is not in production mode and neither mail path is available.
\<close>

theorem responses_hide_code:
  "(production env \<or> \<not> delivery_unavailable env pf doc w \<longrightarrow>
      fst (signup env pf doc w now c1 b d) = fst (signup env pf doc w now c2 b d)
      \<and> fst (login env pf doc w now c1 b d) = fst (login env pf doc w now c2 b d)
      \<and> fst (resend_verification env pf doc w now c1 b d)
          = fst (resend_verification env pf doc w now c2 b d)
      \<and> fst (forgot_password env pf doc w now c1 b d)
          = fst (forgot_password env pf doc w now c2 b d))
   \<and> (\<forall>x. (verificationCode (fst (signup env pf doc w now c1 b d)) = Some x
            \<or> resetCode (fst (signup env pf doc w now c1 b d)) = Some x
            \<or> verificationCode (fst (login env pf doc w now c1 b d)) = Some x
            \<or> resetCode (fst (login env pf doc w now c1 b d)) = Some x
            \<or> verificationCode (fst (resend_verification env pf doc w now c1 b d)) = Some x
            \<or> resetCode (fst (resend_verification env pf doc w now c1 b d)) = Some x
            \<or> verificationCode (fst (forgot_password env pf doc w now c1 b d)) = Some x
            \<or> resetCode (fst (forgot_password env pf doc w now c1 b d)) = Some x) \<longrightarrow>
          \<not> production env \<and> delivery_unavailable env pf doc w)"
proof (intro conjI allI impI)
  assume h: "production env \<or> \<not> delivery_unavailable env pf doc w"
  from h show "fst (signup env pf doc w now c1 b d) = fst (signup env pf doc w now c2 b d)"
    by (rule signup_code_free)
  from h show "fst (login env pf doc w now c1 b d) = fst (login env pf doc w now c2 b d)"
    by (rule login_code_free)
  from h show "fst (resend_verification env pf doc w now c1 b d)
          = fst (resend_verification env pf doc w now c2 b d)"
    by (rule resend_code_free)
  from h show "fst (forgot_password env pf doc w now c1 b d)
          = fst (forgot_password env pf doc w now c2 b d)"
    by (rule forgot_code_free)
next
  fix x
  assume "verificationCode (fst (signup env pf doc w now c1 b d)) = Some x
            \<or> resetCode (fst (signup env pf doc w now c1 b d)) = Some x
            \<or> verificationCode (fst (login env pf doc w now c1 b d)) = Some x
            \<or> resetCode (fst (login env pf doc w now c1 b d)) = Some x
            \<or> verificationCode (fst (resend_verification env pf doc w now c1 b d)) = Some x
            \<or> resetCode (fst (resend_verification env pf doc w now c1 b d)) = Some x
            \<or> verificationCode (fst (forgot_password env pf doc w now c1 b d)) = Some x
            \<or> resetCode (fst (forgot_password env pf doc w now c1 b d)) = Some x"
  then have "\<not> production env \<and> delivery_unavailable env pf doc w"
    using signup_code_shown[of env pf doc w now c1 b d x]
      login_code_shown[of env pf doc w now c1 b d x]
      resend_code_shown[of env pf doc w now c1 b d x]
      forgot_code_shown[of env pf doc w now c1 b d x]
    by blast
  then show "\<not> production env" "delivery_unavailable env pf doc w" by blast+
qed

theorem responses_hide_code_witness:
  "production strict_production_env
   \<and> fst (login strict_production_env ex_platform None ex_world 500 ''111111''
            (login_body ''ann@x.com'' ''secret1'') ex_db)
       = fst (login strict_production_env ex_platform None ex_world 500 ''222222''
            (login_body ''ann@x.com'' ''secret1'') ex_db)
   \<and> status (fst (login strict_production_env ex_platform None ex_world 500 ''111111''
            (login_body ''ann@x.com'' ''secret1'') ex_db)) = 403
   \<and> verificationCode (fst (login strict_env ex_platform None ex_world 500 ''111111''
            (login_body ''ann@x.com'' ''secret1'') ex_db)) = Some ''111111''
   \<and> \<not> production strict_env
   \<and> delivery_unavailable strict_env ex_platform None ex_world"
proof -
  have p: "production strict_production_env"
    by (simp add: production_def strict_production_env_def)
  have s: "status (fst (login strict_production_env ex_platform None ex_world 500 ''111111''
            (login_body ''ann@x.com'' ''secret1'') ex_db)) = 403"
    by (simp add: login_def strict_production_env_def strict_env_def route_eval request_eval)
  have v: "verificationCode (fst (login strict_env ex_platform None ex_world 500 ''111111''
            (login_body ''ann@x.com'' ''secret1'') ex_db)) = Some ''111111''"
    by (simp add: login_def strict_env_def route_eval request_eval)
  from responses_hide_code[of strict_production_env ex_platform None ex_world 500 "''111111''"
      "login_body ''ann@x.com'' ''secret1''" ex_db "''222222''"] p
  have 1: "fst (login strict_production_env ex_platform None ex_world 500 ''111111''
            (login_body ''ann@x.com'' ''secret1'') ex_db)
       = fst (login strict_production_env ex_platform None ex_world 500 ''222222''
            (login_body ''ann@x.com'' ''secret1'') ex_db)"
    by blast
  from responses_hide_code[of strict_env ex_platform None ex_world 500 "''111111''"
      "login_body ''ann@x.com'' ''secret1''" ex_db "''111111''"] v
  have 2: "\<not> production strict_env \<and> delivery_unavailable strict_env ex_platform None ex_world"
    by blast
  from p 1 s v 2 show ?thesis by blast
qed

section \<open>The delivery path\<close>

lemma transporter_exists:
  "createTransporter env pf st \<noteq> None
     \<longleftrightarrow> truthy (resolved_user env st) \<and> truthy (resolved_pass env st)"
  by (simp add: createTransporter_def resolved_user_def resolved_pass_def Let_def)

lemma transporter_gmail:
  "truthy (resolved_user env st) \<Longrightarrow> truthy (resolved_pass env st) \<Longrightarrow>
   \<not> truthy (resolved_host env st) \<Longrightarrow>
   createTransporter env pf st
     = Some (GmailService (or_default (resolved_user env st) []) (or_default (resolved_pass env st) []))"
  by (simp add: createTransporter_def resolved_user_def resolved_pass_def resolved_host_def Let_def)

lemma transporter_smtp:
  assumes "createTransporter env pf st = Some (SmtpServer h port secure u p)"
  shows "truthy (resolved_host env st) \<and> h = or_default (resolved_host env st) []
       \<and> u = or_default (resolved_user env st) [] \<and> p = or_default (resolved_pass env st) []
       \<and> (\<not> truthy (js_or (smtpPort st) (SMTP_PORT env)) \<longrightarrow> port = Some 587)
       \<and> (truthy (js_or (smtpPort st) (SMTP_PORT env)) \<longrightarrow>
            port = js_Number pf (or_default (js_or (smtpPort st) (SMTP_PORT env)) []))
       \<and> (smtpSecure st = None \<and> SMTP_SECURE env = None \<longrightarrow> secure = (port = Some 465))
       \<and> (\<forall>v. smtpSecure st = Some v \<longrightarrow> secure = (js_toLowerCase pf v = ''true''))
       \<and> (\<forall>v. smtpSecure st = None \<and> SMTP_SECURE env = Some v \<longrightarrow>
              secure = (js_toLowerCase pf v = ''true''))"
  using assms
  by (auto simp: createTransporter_def resolved_user_def resolved_pass_def resolved_host_def
      Let_def split: if_splits option.splits)

lemma transporter_smtp_exists:
  "truthy (resolved_user env st) \<Longrightarrow> truthy (resolved_pass env st) \<Longrightarrow>
   truthy (resolved_host env st) \<Longrightarrow>
   \<exists>h port secure u p. createTransporter env pf st = Some (SmtpServer h port secure u p)"
  by (simp add: createTransporter_def resolved_user_def resolved_pass_def resolved_host_def Let_def)

lemmas mail_eval =
  sendVerificationCode_def sendWithResend_def getResendApiKey_def createTransporter_def
  getEmailSettings_def no_settings_def sender_address_def resolved_host_def resolved_user_def
  resolved_pass_def js_or_def or_default_def ascii_toLowerCase_def lower_char_def
  ex_env_def ex_world_def ex_platform_def gmail_env_def smtp_env_def Let_def

text \<open>
  C9, as stated, fails: with a user and a password resolvable and no host, the
  delivery path still falls through to a transport (the Gmail service) and sends.
\<close>

theorem delivery_without_host:
  "\<not> truthy (resolved_host gmail_env (getEmailSettings None))
   \<and> getResendApiKey ex_platform gmail_env (getEmailSettings None) = []
   \<and> sendWithResend ex_platform gmail_env (getEmailSettings None) ex_world = Inr False
   \<and> createTransporter gmail_env ex_platform (getEmailSettings None)
       = Some (GmailService ''me@gmail.com'' ''pw'')
   \<and> sendVerificationCode gmail_env ex_platform None ex_world ''ann@x.com'' ''111111'' = Inr True"
  by (simp add: mail_eval)

text \<open>
  C9, amended. \<open>sendVerificationCode\<close> returns true when the primary route succeeds;
  when the primary route reports failure it falls through to a transport exactly when
  user and password are both resolvable from settings or environment: the Gmail
  service when no host is resolvable, and otherwise an SMTP transport for the resolved
  host whose port is 587 unless configured, and whose secure flag is an explicit
  setting (settings first, then environment) compared with "true", and without one is
  true iff the port is 465. When the primary route has no API key and user or password
  is missing, the result is false, not an exception.
\<close>

theorem delivery_fallback:
  "(sendWithResend pf env (getEmailSettings doc) w = Inr True \<longrightarrow>
      sendVerificationCode env pf doc w em code = Inr True)
   \<and> (sendWithResend pf env (getEmailSettings doc) w = Inr False \<longrightarrow>
        sendVerificationCode env pf doc w em code =
          (case createTransporter env pf (getEmailSettings doc) of
             None \<Rightarrow> Inr False
           | Some t \<Rightarrow> if sendMail_result w t then Inr True else Inl SendMailError))
   \<and> (createTransporter env pf st \<noteq> None
        \<longleftrightarrow> truthy (resolved_user env st) \<and> truthy (resolved_pass env st))
   \<and> (truthy (resolved_user env st) \<and> truthy (resolved_pass env st)
        \<and> \<not> truthy (resolved_host env st) \<longrightarrow>
        createTransporter env pf st
          = Some (GmailService (or_default (resolved_user env st) [])
                    (or_default (resolved_pass env st) [])))
   \<and> (truthy (resolved_user env st) \<and> truthy (resolved_pass env st)
        \<and> truthy (resolved_host env st) \<longrightarrow>
        (\<exists>port secure.
           createTransporter env pf st
             = Some (SmtpServer (or_default (resolved_host env st) []) port secure
                       (or_default (resolved_user env st) [])
                       (or_default (resolved_pass env st) []))
           \<and> (\<not> truthy (js_or (smtpPort st) (SMTP_PORT env)) \<longrightarrow> port = Some 587)
           \<and> (truthy (js_or (smtpPort st) (SMTP_PORT env)) \<longrightarrow>
                port = js_Number pf (or_default (js_or (smtpPort st) (SMTP_PORT env)) []))
           \<and> (smtpSecure st = None \<and> SMTP_SECURE env = None \<longrightarrow> secure = (port = Some 465))
           \<and> (\<forall>v. smtpSecure st = Some v \<longrightarrow> secure = (js_toLowerCase pf v = ''true''))
           \<and> (\<forall>v. smtpSecure st = None \<and> SMTP_SECURE env = Some v \<longrightarrow>
                  secure = (js_toLowerCase pf v = ''true''))))
   \<and> (getResendApiKey pf env (getEmailSettings doc) = []
        \<and> \<not> (truthy (resolved_user env (getEmailSettings doc))
               \<and> truthy (resolved_pass env (getEmailSettings doc))) \<longrightarrow>
        sendVerificationCode env pf doc w em code = Inr False)"
proof (intro conjI impI)
  assume "sendWithResend pf env (getEmailSettings doc) w = Inr True"
  then show "sendVerificationCode env pf doc w em code = Inr True"
    by (simp add: sendVerificationCode_def Let_def)
next
  assume "sendWithResend pf env (getEmailSettings doc) w = Inr False"
  then show "sendVerificationCode env pf doc w em code =
          (case createTransporter env pf (getEmailSettings doc) of
             None \<Rightarrow> Inr False
           | Some t \<Rightarrow> if sendMail_result w t then Inr True else Inl SendMailError)"
    by (simp add: sendVerificationCode_def Let_def)
next
  show "createTransporter env pf st \<noteq> None
        \<longleftrightarrow> truthy (resolved_user env st) \<and> truthy (resolved_pass env st)"
    by (rule transporter_exists)
next
  assume "truthy (resolved_user env st) \<and> truthy (resolved_pass env st)
        \<and> \<not> truthy (resolved_host env st)"
  then show "createTransporter env pf st
          = Some (GmailService (or_default (resolved_user env st) [])
                    (or_default (resolved_pass env st) []))"
    by (simp add: transporter_gmail)
next
  assume h: "truthy (resolved_user env st) \<and> truthy (resolved_pass env st)
        \<and> truthy (resolved_host env st)"
  then obtain h' port secure u p
    where t: "createTransporter env pf st = Some (SmtpServer h' port secure u p)"
    using transporter_smtp_exists by blast
  from transporter_smtp[OF t] t
  show "\<exists>port secure.
           createTransporter env pf st
             = Some (SmtpServer (or_default (resolved_host env st) []) port secure
                       (or_default (resolved_user env st) [])
                       (or_default (resolved_pass env st) []))
           \<and> (\<not> truthy (js_or (smtpPort st) (SMTP_PORT env)) \<longrightarrow> port = Some 587)
           \<and> (truthy (js_or (smtpPort st) (SMTP_PORT env)) \<longrightarrow>
                port = js_Number pf (or_default (js_or (smtpPort st) (SMTP_PORT env)) []))
           \<and> (smtpSecure st = None \<and> SMTP_SECURE env = None \<longrightarrow> secure = (port = Some 465))
           \<and> (\<forall>v. smtpSecure st = Some v \<longrightarrow> secure = (js_toLowerCase pf v = ''true''))
           \<and> (\<forall>v. smtpSecure st = None \<and> SMTP_SECURE env = Some v \<longrightarrow>
                  secure = (js_toLowerCase pf v = ''true''))"
    by blast
next
  assume h: "getResendApiKey pf env (getEmailSettings doc) = []
        \<and> \<not> (truthy (resolved_user env (getEmailSettings doc))
               \<and> truthy (resolved_pass env (getEmailSettings doc)))"
  then have "createTransporter env pf (getEmailSettings doc) = None"
    using transporter_exists[of env pf "getEmailSettings doc"] by blast
  with h show "sendVerificationCode env pf doc w em code = Inr False"
    by (simp add: sendVerificationCode_def sendWithResend_def Let_def)
qed

theorem delivery_fallback_witness:
  "sendWithResend ex_platform smtp_env (getEmailSettings None) ex_world = Inr False
   \<and> createTransporter smtp_env ex_platform (getEmailSettings None)
       = Some (SmtpServer ''mail.x.com'' (Some 465) True ''u'' ''pw'')
   \<and> sendVerificationCode smtp_env ex_platform None ex_world ''ann@x.com'' ''111111'' = Inr True
   \<and> createTransporter (smtp_env\<lparr>SMTP_PORT := None\<rparr>) ex_platform (getEmailSettings None)
       = Some (SmtpServer ''mail.x.com'' (Some 587) False ''u'' ''pw'')
   \<and> createTransporter gmail_env ex_platform (getEmailSettings None)
       = Some (GmailService ''me@gmail.com'' ''pw'')
   \<and> sendVerificationCode ex_env ex_platform None ex_world ''ann@x.com'' ''111111'' = Inr False"
proof -
  let ?st = "getEmailSettings None"
  have r: "sendWithResend ex_platform smtp_env ?st ex_world = Inr False"
    by (simp add: mail_eval)
  have t: "truthy (resolved_user smtp_env ?st) \<and> truthy (resolved_pass smtp_env ?st)
        \<and> truthy (resolved_host smtp_env ?st)"
    "truthy (resolved_user (smtp_env\<lparr>SMTP_PORT := None\<rparr>) ?st)
        \<and> truthy (resolved_pass (smtp_env\<lparr>SMTP_PORT := None\<rparr>) ?st)
        \<and> truthy (resolved_host (smtp_env\<lparr>SMTP_PORT := None\<rparr>) ?st)"
    by (simp_all add: mail_eval)
  have g: "truthy (resolved_user gmail_env ?st) \<and> truthy (resolved_pass gmail_env ?st)
        \<and> \<not> truthy (resolved_host gmail_env ?st)"
    by (simp add: mail_eval)
  have n: "getResendApiKey ex_platform ex_env ?st = []
        \<and> \<not> (truthy (resolved_user ex_env ?st) \<and> truthy (resolved_pass ex_env ?st))"
    by (simp add: mail_eval)
  have vals: "or_default (resolved_host smtp_env ?st) [] = ''mail.x.com''"
    "or_default (resolved_user smtp_env ?st) [] = ''u''"
    "or_default (resolved_pass smtp_env ?st) [] = ''pw''"
    "truthy (js_or (smtpPort ?st) (SMTP_PORT smtp_env))"
    "js_Number ex_platform (or_default (js_or (smtpPort ?st) (SMTP_PORT smtp_env)) []) = Some 465"
    "smtpSecure ?st = None" "SMTP_SECURE smtp_env = None"
    by (simp_all add: mail_eval)
  have vals': "or_default (resolved_host (smtp_env\<lparr>SMTP_PORT := None\<rparr>) ?st) [] = ''mail.x.com''"
    "or_default (resolved_user (smtp_env\<lparr>SMTP_PORT := None\<rparr>) ?st) [] = ''u''"
    "or_default (resolved_pass (smtp_env\<lparr>SMTP_PORT := None\<rparr>) ?st) [] = ''pw''"
    "\<not> truthy (js_or (smtpPort ?st) (SMTP_PORT (smtp_env\<lparr>SMTP_PORT := None\<rparr>)))"
    "SMTP_SECURE (smtp_env\<lparr>SMTP_PORT := None\<rparr>) = None"
    by (simp_all add: mail_eval)
  have gv: "or_default (resolved_user gmail_env ?st) [] = ''me@gmail.com''"
    "or_default (resolved_pass gmail_env ?st) [] = ''pw''"
    by (simp_all add: mail_eval)
  note A = delivery_fallback[of ex_platform smtp_env None ex_world "''ann@x.com''" "''111111''" ?st]
  note B = delivery_fallback[of ex_platform "smtp_env\<lparr>SMTP_PORT := None\<rparr>" None ex_world "''ann@x.com''" "''111111''" ?st]
  note C = delivery_fallback[of ex_platform gmail_env None ex_world "''ann@x.com''" "''111111''" ?st]
  note D = delivery_fallback[of ex_platform ex_env None ex_world "''ann@x.com''" "''111111''" ?st]
  from A t(1) vals have 1: "createTransporter smtp_env ex_platform ?st
       = Some (SmtpServer ''mail.x.com'' (Some 465) True ''u'' ''pw'')"
    by auto
  from A r 1 have 2: "sendVerificationCode smtp_env ex_platform None ex_world ''ann@x.com'' ''111111'' = Inr True"
    by (simp add: ex_world_def)
  from B t(2) vals' vals(6) have 3: "createTransporter (smtp_env\<lparr>SMTP_PORT := None\<rparr>) ex_platform ?st
       = Some (SmtpServer ''mail.x.com'' (Some 587) False ''u'' ''pw'')"
    by auto
  from C g gv have 4: "createTransporter gmail_env ex_platform ?st
       = Some (GmailService ''me@gmail.com'' ''pw'')"
    by auto
  from D n have 5: "sendVerificationCode ex_env ex_platform None ex_world ''ann@x.com'' ''111111'' = Inr False"
    by blast
  from r 1 2 3 4 5 show ?thesis by blast
qed

section \<open>Seed reconciliation twice in a row\<close>

text \<open>What one seed does to the store, case by case.\<close>

lemma seed_pass_skip: "\<not> usable s \<Longrightarrow> seed_pass pf now s d = d"
  by (auto simp: seed_pass_def usable_def)

lemma seed_pass_create:
  assumes "usable s" "findOne (\<lambda>a. email a = seed_key pf s) d = None"
  shows "seed_pass pf now s d =
           snd (create now (or_default (seed_name s) []) (seed_key pf s)
                  (bcrypt_hash pf (or_default (seed_password s) [])) True d)"
  using assms by (simp add: seed_pass_def usable_def seed_key_def Let_def)

lemma seed_pass_keep:
  assumes "usable s" "findOne (\<lambda>a. email a = seed_key pf s) d = Some e"
    "forceSync s \<longrightarrow> in_sync pf s e"
  shows "seed_pass pf now s d = d"
  using assms by (simp add: seed_pass_def usable_def seed_key_def Let_def in_sync_def)

lemma seed_pass_sync:
  assumes "usable s" "findOne (\<lambda>a. email a = seed_key pf s) d = Some e"
    "forceSync s" "\<not> in_sync pf s e"
    and bc: "\<And>p. bcrypt_compare pf p (bcrypt_hash pf p)"
  shows "\<exists>e'. seed_pass pf now s d = save e' d \<and> admin_id e' = admin_id e
              \<and> email e' = email e \<and> in_sync pf s e'"
proof -
  let ?pw = "or_default (seed_password s) []"
  let ?nm = "or_default (seed_name s) []"
  define e1 where "e1 = (if \<not> bcrypt_compare pf ?pw (passwordHash e)
                         then e\<lparr>passwordHash := bcrypt_hash pf ?pw\<rparr> else e)"
  define e2 where "e2 = (if name e \<noteq> ?nm then e1\<lparr>name := ?nm\<rparr> else e1)"
  define e3 where "e3 = (if \<not> isVerified e then e2\<lparr>isVerified := True\<rparr> else e2)"
  define e' where "e' = e3\<lparr>loginVerificationCodeHash := [], loginVerificationExpiresAt := None\<rparr>"
  from assms(4) have drift: "\<not> bcrypt_compare pf ?pw (passwordHash e) \<or> name e \<noteq> ?nm \<or> \<not> isVerified e"
    by (auto simp: in_sync_def)
  have run: "seed_pass pf now s d = save e' d"
    using assms(1-3) drift
    unfolding e'_def e3_def e2_def e1_def
    by (simp add: seed_pass_def usable_def seed_key_def Let_def)
  have id: "admin_id e' = admin_id e" "email e' = email e"
    by (simp_all add: e'_def e3_def e2_def e1_def)
  have "bcrypt_compare pf ?pw (passwordHash e')"
    using bc by (simp add: e'_def e3_def e2_def e1_def)
  moreover have "name e' = ?nm"
    by (simp add: e'_def e3_def e2_def e1_def)
  moreover have "isVerified e'"
    by (simp add: e'_def e3_def e2_def e1_def)
  ultimately have "in_sync pf s e'" by (simp add: in_sync_def)
  with run id show ?thesis by blast
qed

text \<open>The invariant of the loop: ids stay unique and the identifier supply stays fresh.\<close>

lemma seed_pass_new_id: "new_id (seed_pass pf now s d) = new_id d"
  by (simp add: seed_pass_def Let_def save_def create_def split: option.splits)

lemma seed_pass_ids:
  assumes "distinct (map admin_id (docs d))" "\<And>ds. new_id d ds \<notin> admin_id ` set ds"
  shows "distinct (map admin_id (docs (seed_pass pf now s d)))"
  using assms
  by (simp add: seed_pass_def Let_def save_def create_def map_admin_id_replace_doc
      split: option.splits)

lemma seed_pass_own:
  assumes "usable s" "distinct (map admin_id (docs d))"
    and bc: "\<And>p. bcrypt_compare pf p (bcrypt_hash pf p)"
  shows "\<exists>a. findOne (\<lambda>a. email a = seed_key pf s) (seed_pass pf now s d) = Some a
           \<and> (forceSync s \<or> findOne (\<lambda>a. email a = seed_key pf s) d = None \<longrightarrow> in_sync pf s a)"
proof (cases "findOne (\<lambda>a. email a = seed_key pf s) d")
  case None
  then have "find (\<lambda>a. email a = seed_key pf s) (docs d) = None" by (simp add: findOne_def)
  then show ?thesis
    using bc by (simp add: seed_pass_create[OF assms(1) None] create_def findOne_def
        find_append_one in_sync_def Let_def)
next
  case (Some e)
  show ?thesis
  proof (cases "forceSync s \<and> \<not> in_sync pf s e")
    case True
    with seed_pass_sync[OF assms(1) Some _ _ bc, of now]
    obtain e' where r: "seed_pass pf now s d = save e' d" and i: "admin_id e' = admin_id e"
      and m: "email e' = email e" and y: "in_sync pf s e'" by blast
    from Some have f: "find (\<lambda>a. email a = seed_key pf s) (docs d) = Some e"
      by (simp add: findOne_def)
    from find_SomeD[OF f] m have "email e' = seed_key pf s" by simp
    from find_replace_first[OF f assms(2) i, of ] this
    have "find (\<lambda>a. email a = seed_key pf s) (replace_doc e' (docs d)) = Some e'" by simp
    with y show ?thesis by (simp add: r save_def findOne_def)
  next
    case False
    then have k: "forceSync s \<longrightarrow> in_sync pf s e" by blast
    from seed_pass_keep[OF assms(1) Some k] Some k show ?thesis by simp
  qed
qed

lemma seed_pass_other:
  assumes "distinct (map admin_id (docs d))" "k \<noteq> seed_key pf s"
    and bc: "\<And>p. bcrypt_compare pf p (bcrypt_hash pf p)"
  shows "findOne (\<lambda>a. email a = k) (seed_pass pf now s d) = findOne (\<lambda>a. email a = k) d"
proof (cases "usable s")
  case False
  then show ?thesis by (simp add: seed_pass_skip)
next
  case True
  show ?thesis
  proof (cases "findOne (\<lambda>a. email a = seed_key pf s) d")
    case None
    with assms(2) show ?thesis
      by (auto simp: seed_pass_create[OF True None] create_def findOne_def find_append_one
          Let_def split: option.splits)
  next
    case (Some e)
    from Some have f: "find (\<lambda>a. email a = seed_key pf s) (docs d) = Some e"
      by (simp add: findOne_def)
    show ?thesis
    proof (cases "forceSync s \<and> \<not> in_sync pf s e")
      case True
      with seed_pass_sync[OF \<open>usable s\<close> Some _ _ bc, of now]
      obtain e' where r: "seed_pass pf now s d = save e' d" and i: "admin_id e' = admin_id e"
        and m: "email e' = email e" by blast
      from find_SomeD[OF f] have e: "e \<in> set (docs d)" "email e = seed_key pf s" by simp_all
      with assms(2) m have "\<not> email e = k" "\<not> email e' = k" by simp_all
      from find_replace_other[OF assms(1) e(1) i, of "\<lambda>a. email a = k", OF this]
      show ?thesis by (simp add: r save_def findOne_def)
    next
      case False
      then have k: "forceSync s \<longrightarrow> in_sync pf s e" by blast
      from seed_pass_keep[OF \<open>usable s\<close> Some k] show ?thesis by simp
    qed
  qed
qed


lemma seeds_settled_iff:
  "seeds_settled pf ss d0 d \<longleftrightarrow>
     (\<forall>s \<in> set ss. usable s \<longrightarrow>
        (\<exists>a. findOne (\<lambda>a. email a = seed_key pf s) d = Some a
           \<and> (forceSync s \<or> findOne (\<lambda>a. email a = seed_key pf s) d0 = None \<longrightarrow> in_sync pf s a)))"
  by (auto simp: seeds_settled_def list_all_iff split: option.splits)

lemma fold_seed_pass_new_id: "new_id (fold (seed_pass pf now) ss d) = new_id d"
  by (induction ss arbitrary: d) (simp_all add: seed_pass_new_id)

lemma fold_seed_pass_ids:
  assumes "distinct (map admin_id (docs d))" "\<And>ds. new_id d ds \<notin> admin_id ` set ds"
  shows "distinct (map admin_id (docs (fold (seed_pass pf now) ss d)))"
  using assms
proof (induction ss arbitrary: d)
  case Nil
  then show ?case by simp
next
  case (Cons s ss)
  have "distinct (map admin_id (docs (seed_pass pf now s d)))"
    using Cons.prems by (rule seed_pass_ids)
  moreover have "\<And>ds. new_id (seed_pass pf now s d) ds \<notin> admin_id ` set ds"
    using Cons.prems(2) by (simp add: seed_pass_new_id)
  ultimately show ?case using Cons.IH by simp
qed

lemma fold_seed_pass_other:
  assumes "distinct (map admin_id (docs d))" "\<And>ds. new_id d ds \<notin> admin_id ` set ds"
    and bc: "\<And>p. bcrypt_compare pf p (bcrypt_hash pf p)"
    and "k \<notin> seed_key pf ` set (filter usable ss)"
  shows "findOne (\<lambda>a. email a = k) (fold (seed_pass pf now) ss d) = findOne (\<lambda>a. email a = k) d"
  using assms(1,2,4)
proof (induction ss arbitrary: d)
  case Nil
  then show ?case by simp
next
  case (Cons s ss)
  have i: "distinct (map admin_id (docs (seed_pass pf now s d)))"
    using Cons.prems(1,2) by (rule seed_pass_ids)
  have n: "\<And>ds. new_id (seed_pass pf now s d) ds \<notin> admin_id ` set ds"
    using Cons.prems(2) by (simp add: seed_pass_new_id)
  from Cons.prems(3) have k: "k \<notin> seed_key pf ` set (filter usable ss)" by (auto split: if_splits)
  have "findOne (\<lambda>a. email a = k) (seed_pass pf now s d) = findOne (\<lambda>a. email a = k) d"
  proof (cases "usable s")
    case True
    with Cons.prems(3) have "k \<noteq> seed_key pf s" by auto
    with Cons.prems(1) bc show ?thesis by (intro seed_pass_other)
  next
    case False
    then show ?thesis by (simp add: seed_pass_skip)
  qed
  with Cons.IH[OF i n k] show ?case by simp
qed

lemma fold_seed_pass_settles:
  assumes "distinct (map admin_id (docs d))" "\<And>ds. new_id d ds \<notin> admin_id ` set ds"
    and bc: "\<And>p. bcrypt_compare pf p (bcrypt_hash pf p)"
    and "distinct (map (seed_key pf) (filter usable ss))"
  shows "seeds_settled pf ss d (fold (seed_pass pf now) ss d)"
  using assms(1,2,4)
proof (induction ss arbitrary: d)
  case Nil
  then show ?case by (simp add: seeds_settled_iff)
next
  case (Cons s ss)
  let ?d1 = "seed_pass pf now s d"
  let ?d2 = "fold (seed_pass pf now) ss ?d1"
  have i: "distinct (map admin_id (docs ?d1))"
    using Cons.prems(1,2) by (rule seed_pass_ids)
  have n: "\<And>ds. new_id ?d1 ds \<notin> admin_id ` set ds"
    using Cons.prems(2) by (simp add: seed_pass_new_id)
  from Cons.prems(3) have ks: "distinct (map (seed_key pf) (filter usable ss))"
    by (simp split: if_splits)
  have rest: "seeds_settled pf ss ?d1 ?d2" using Cons.IH[OF i n ks] .
  have "\<exists>a. findOne (\<lambda>a. email a = seed_key pf t) ?d2 = Some a
           \<and> (forceSync t \<or> findOne (\<lambda>a. email a = seed_key pf t) d = None \<longrightarrow> in_sync pf t a)"
    if t: "t \<in> set (s # ss)" "usable t" for t
  proof (cases "t \<in> set ss")
    case True
    with rest t obtain a where a: "findOne (\<lambda>a. email a = seed_key pf t) ?d2 = Some a"
      "forceSync t \<or> findOne (\<lambda>a. email a = seed_key pf t) ?d1 = None \<longrightarrow> in_sync pf t a"
      by (auto simp: seeds_settled_iff)
    have "findOne (\<lambda>a. email a = seed_key pf t) ?d1 = findOne (\<lambda>a. email a = seed_key pf t) d"
    proof (cases "usable s")
      case False
      then show ?thesis by (simp add: seed_pass_skip)
    next
      case us: True
      from True t have "seed_key pf t \<in> seed_key pf ` set (filter usable ss)" by simp
      with us Cons.prems(3) have "seed_key pf t \<noteq> seed_key pf s" by auto
      with Cons.prems(1) bc show ?thesis by (intro seed_pass_other)
    qed
    with a show ?thesis by simp
  next
    case False
    with t have ts: "t = s" by simp
    with t Cons.prems(3) have k: "seed_key pf s \<notin> seed_key pf ` set (filter usable ss)" by simp
    from t ts have us: "usable s" by simp
    from seed_pass_own[OF us Cons.prems(1) bc, of now]
    obtain a where a: "findOne (\<lambda>a. email a = seed_key pf s) ?d1 = Some a"
      "forceSync s \<or> findOne (\<lambda>a. email a = seed_key pf s) d = None \<longrightarrow> in_sync pf s a"
      by (elim exE conjE)
    from fold_seed_pass_other[OF i n bc k, of now] a ts show ?thesis by simp
  qed
  then show ?case by (simp add: seeds_settled_iff)
qed

lemma fold_seed_pass_noop:
  assumes "seeds_settled pf ss d0 d"
  shows "fold (seed_pass pf now) ss d = d"
  using assms
proof (induction ss)
  case Nil
  then show ?case by simp
next
  case (Cons s ss)
  have "seed_pass pf now s d = d"
  proof (cases "usable s")
    case False
    then show ?thesis by (simp add: seed_pass_skip)
  next
    case True
    with Cons.prems obtain a where a: "findOne (\<lambda>a. email a = seed_key pf s) d = Some a"
      "forceSync s \<longrightarrow> in_sync pf s a"
      by (auto simp: seeds_settled_iff)
    from seed_pass_keep[OF True a] show ?thesis .
  qed
  moreover from Cons.prems have "seeds_settled pf ss d0 d" by (simp add: seeds_settled_iff)
  ultimately show ?case using Cons.IH by simp
qed

lemma ex_new_id_fresh: "ex_new_id ds \<notin> admin_id ` set ds"
proof -
  have le: "a \<in> set ds \<Longrightarrow> length (admin_id a) \<le> foldr (\<lambda>a m. max (length (admin_id a)) m) ds 0"
    for a
    by (induction ds) auto
  show ?thesis
  proof
    assume "ex_new_id ds \<in> admin_id ` set ds"
    then obtain a where a: "a \<in> set ds" "admin_id a = ex_new_id ds" by auto
    from le[OF a(1)] a(2) show False by (simp add: ex_new_id_def)
  qed
qed

lemmas seed_eval =
  ensureSeedAdmins_def seeds_of_def singleSeed_def parseAdminAccounts_def seed_pass_def
  create_def usable_def seed_key_def in_sync_def
  duplicate_env_def sync_env_def carl_seed_def bob_seed_def ann_seed_def ex_env_def ex_new_id_def

text \<open>
  C4, as stated, fails in two ways. With two force-synced entries for one address and
  different passwords, the first call leaves the account with the second password, and
  the second call saves it twice more. With an entry that is not force-synced and an
  account that already exists, the call leaves the account alone, so after the call
  its password hash does not verify against the seed password.
\<close>

theorem seed_reconciliation_rewrites:
  "list_all usable (seeds_of duplicate_env)
   \<and> ids_distinct ex_db
   \<and> writes (ensureSeedAdmins duplicate_env ex_platform 1 ex_db)
       = [Created ''000'', Saved ''000'']
   \<and> writes (ensureSeedAdmins duplicate_env ex_platform 2
               (ensureSeedAdmins duplicate_env ex_platform 1 ex_db))
       = [Created ''000'', Saved ''000'', Saved ''000'', Saved ''000'']
   \<and> list_all usable (seeds_of sync_env)
   \<and> findOne (\<lambda>a. email a = seed_key ex_platform bob_seed)
        (ensureSeedAdmins sync_env ex_platform 1 ex_db) = Some bob
   \<and> \<not> bcrypt_compare ex_platform (or_default (seed_password bob_seed) []) (passwordHash bob)"
  by (simp add: seed_eval request_eval ids_distinct_def)

text \<open>
  C4, amended. On a store with unique ids (and a store that gives new documents fresh
  ids, and a bcrypt whose comparison accepts its own hashes), for every seed
  configuration whose entries with e-mail address and password present have pairwise
  distinct normalized addresses, a second call of \<open>ensureSeedAdmins\<close> right after
  the first returns the store as the first call left it, write log included: after the
  first call each such entry has an account, which, where the entry is force-synced or
  the call created the account, has a password hash that verifies against the seed
  password, the seed's name, and is verified.
\<close>

theorem seed_reconciliation_idempotent:
  assumes ids: "ids_distinct d"
    and fresh: "\<And>ds. new_id d ds \<notin> admin_id ` set ds"
    and bc: "\<And>p. bcrypt_compare pf p (bcrypt_hash pf p)"
    and keys: "distinct (map (seed_key pf) (filter usable (seeds_of env)))"
  shows "ensureSeedAdmins env pf now2 (ensureSeedAdmins env pf now1 d)
           = ensureSeedAdmins env pf now1 d
       \<and> writes (ensureSeedAdmins env pf now2 (ensureSeedAdmins env pf now1 d))
           = writes (ensureSeedAdmins env pf now1 d)
       \<and> seeds_settled pf (seeds_of env) d (ensureSeedAdmins env pf now1 d)"
proof -
  from ids have i: "distinct (map admin_id (docs d))" by (simp add: ids_distinct_def)
  have s: "seeds_settled pf (seeds_of env) d (ensureSeedAdmins env pf now1 d)"
    unfolding ensureSeedAdmins_def using i fresh bc keys by (rule fold_seed_pass_settles)
  from fold_seed_pass_noop[OF s, of now2]
  have "ensureSeedAdmins env pf now2 (ensureSeedAdmins env pf now1 d)
           = ensureSeedAdmins env pf now1 d"
    by (simp add: ensureSeedAdmins_def)
  with s show ?thesis by simp
qed


theorem seed_reconciliation_idempotent_witness:
  "ids_distinct ex_db
   \<and> distinct (map (seed_key ex_platform) (filter usable (seeds_of sync_env)))
   \<and> writes (ensureSeedAdmins sync_env ex_platform 1 ex_db) = [Saved ''a1'', Created ''000'']
   \<and> ensureSeedAdmins sync_env ex_platform 2 (ensureSeedAdmins sync_env ex_platform 1 ex_db)
       = ensureSeedAdmins sync_env ex_platform 1 ex_db
   \<and> seeds_settled ex_platform (seeds_of sync_env) ex_db
        (ensureSeedAdmins sync_env ex_platform 1 ex_db)"
proof -
  have i: "ids_distinct ex_db"
    by (simp add: ids_distinct_def ex_db_def ann_def bob_def)
  have f: "\<And>ds. new_id ex_db ds \<notin> admin_id ` set ds"
    using ex_new_id_fresh by (simp add: ex_db_def)
  have b: "\<And>p. bcrypt_compare ex_platform p (bcrypt_hash ex_platform p)"
    by (simp add: ex_platform_def)
  have k: "distinct (map (seed_key ex_platform) (filter usable (seeds_of sync_env)))"
    by (simp add: seed_eval request_eval)
  have w: "writes (ensureSeedAdmins sync_env ex_platform 1 ex_db) = [Saved ''a1'', Created ''000'']"
    by (simp add: seed_eval request_eval)
  from seed_reconciliation_idempotent[OF i f b k, of 2 1] i k w show ?thesis by blast
qed

section \<open>The missing-transport bypass\<close>

text \<open>
  C5. \<open>handleMissingSmtpVerification\<close>, called when delivery failed: with the
  require-admin-email-verification flag off the account is set verified, its
  login-code hash and expiry are cleared, the account is saved and the result is true,
  and a stored account is then found in the store in that state; with the flag on the
  result is false and neither the account nor the store changes.
\<close>

theorem missing_smtp_bypass:
  "handleMissingSmtpVerification pf env a d =
     (if REQUIRE_ADMIN_EMAIL_VERIFICATION pf env then (False, a, d)
      else (True,
            a\<lparr>isVerified := True, loginVerificationCodeHash := [],
               loginVerificationExpiresAt := None\<rparr>,
            save (a\<lparr>isVerified := True, loginVerificationCodeHash := [],
                     loginVerificationExpiresAt := None\<rparr>) d))
   \<and> (\<not> REQUIRE_ADMIN_EMAIL_VERIFICATION pf env \<and> admin_id a \<in> admin_id ` set (docs d) \<longrightarrow>
        findById (admin_id a) (snd (snd (handleMissingSmtpVerification pf env a d)))
          = Some (a\<lparr>isVerified := True, loginVerificationCodeHash := [],
                     loginVerificationExpiresAt := None\<rparr>))"
  using find_replace_doc[of "a\<lparr>isVerified := True, loginVerificationCodeHash := [],
                     loginVerificationExpiresAt := None\<rparr>" "docs d"]
  by (simp add: handleMissingSmtpVerification_def Let_def findById_def save_def)

theorem missing_smtp_bypass_witness:
  "\<not> REQUIRE_ADMIN_EMAIL_VERIFICATION ex_platform ex_env
   \<and> admin_id ann \<in> admin_id ` set (docs ex_db)
   \<and> fst (handleMissingSmtpVerification ex_platform ex_env ann ex_db) = True
   \<and> findById (admin_id ann) (snd (snd (handleMissingSmtpVerification ex_platform ex_env ann ex_db)))
       = Some (ann\<lparr>isVerified := True, loginVerificationCodeHash := [],
                   loginVerificationExpiresAt := None\<rparr>)
   \<and> REQUIRE_ADMIN_EMAIL_VERIFICATION ex_platform (ex_env\<lparr>REQUIRE_ADMIN_EMAIL_VERIFICATION_var := Some ''true''\<rparr>)
   \<and> handleMissingSmtpVerification ex_platform (ex_env\<lparr>REQUIRE_ADMIN_EMAIL_VERIFICATION_var := Some ''true''\<rparr>) ann ex_db
       = (False, ann, ex_db)"
proof -
  have off: "\<not> REQUIRE_ADMIN_EMAIL_VERIFICATION ex_platform ex_env"
    by (simp add: REQUIRE_ADMIN_EMAIL_VERIFICATION_def ex_env_def ex_platform_def or_default_def
        ascii_toLowerCase_def lower_char_def)
  have on: "REQUIRE_ADMIN_EMAIL_VERIFICATION ex_platform (ex_env\<lparr>REQUIRE_ADMIN_EMAIL_VERIFICATION_var := Some ''true''\<rparr>)"
    by (simp add: REQUIRE_ADMIN_EMAIL_VERIFICATION_def ex_env_def ex_platform_def or_default_def
        ascii_toLowerCase_def lower_char_def)
  have mem: "admin_id ann \<in> admin_id ` set (docs ex_db)"
    by (simp add: ex_db_def)
  from missing_smtp_bypass[of ex_platform ex_env ann ex_db, THEN conjunct1] off
  have 1: "fst (handleMissingSmtpVerification ex_platform ex_env ann ex_db) = True"
    by simp
  from missing_smtp_bypass[of ex_platform ex_env ann ex_db, THEN conjunct2] off mem
  have 2: "findById (admin_id ann) (snd (snd (handleMissingSmtpVerification ex_platform ex_env ann ex_db)))
       = Some (ann\<lparr>isVerified := True, loginVerificationCodeHash := [],
                   loginVerificationExpiresAt := None\<rparr>)"
    by blast
  from missing_smtp_bypass[of ex_platform "ex_env\<lparr>REQUIRE_ADMIN_EMAIL_VERIFICATION_var := Some ''true''\<rparr>" ann ex_db, THEN conjunct1] on
  have 3: "handleMissingSmtpVerification ex_platform (ex_env\<lparr>REQUIRE_ADMIN_EMAIL_VERIFICATION_var := Some ''true''\<rparr>) ann ex_db
       = (False, ann, ex_db)"
    by simp
  from off mem 1 2 on 3 show ?thesis by blast
qed

end
